theory Spec2Isabelle
  imports Complex_Main
begin

section \<open>JavaScript values\<close>

text \<open>
  The repository is JavaScript. A string is modelled as a list of characters (code units
  below 256), a number as a real (the rounding of IEEE arithmetic and of \<open>Float32Array\<close>
  is not modelled: stored and computed numbers are exact), an array as a list, a thrown
  exception or a rejected promise as the left injection of a sum.
\<close>

datatype js_error = Error string | TypeError string

text \<open>The characters that the regular expression class \<open>\s\<close> and \<open>String.prototype.trim\<close>
  treat as white space, among the code units below 256.\<close>

definition isWhiteSpace :: "char \<Rightarrow> bool" where
  "isWhiteSpace c =
     (c \<in> set [CHR 0x09, CHR 0x0A, CHR 0x0B, CHR 0x0C, CHR 0x0D, CHR 0x20, CHR 0xA0])"

definition trim :: "string \<Rightarrow> string" where
  "trim s = rev (dropWhile isWhiteSpace (rev (dropWhile isWhiteSpace s)))"

section \<open>TextExtractor (preprocessing/run\_pipeline.js)\<close>

text \<open>\<open>text.replace(/\s+/g, ' ')\<close>: every maximal run of white space becomes one space.\<close>

function replace_whitespace_runs :: "string \<Rightarrow> string" where
  "replace_whitespace_runs [] = []"
| "replace_whitespace_runs (c # cs) =
     (if isWhiteSpace c then CHR '' '' # replace_whitespace_runs (dropWhile isWhiteSpace cs)
      else c # replace_whitespace_runs cs)"
  by pat_completeness auto
termination
  by (relation "measure length") (auto simp: less_Suc_eq_le length_dropWhile_le)

text \<open>\<open>text.replace(/\n{3,}/g, '\n\n')\<close>: the match is greedy, so a run of three or more
  newlines is replaced as a whole by two; shorter runs are copied.\<close>

function replace_newline_runs :: "string \<Rightarrow> string" where
  "replace_newline_runs [] = []"
| "replace_newline_runs (c # cs) =
     (if c = CHR 0x0A \<and> 2 \<le> length (takeWhile (\<lambda>d. d = CHR 0x0A) cs)
      then CHR 0x0A # CHR 0x0A # replace_newline_runs (dropWhile (\<lambda>d. d = CHR 0x0A) cs)
      else c # replace_newline_runs cs)"
  by pat_completeness auto
termination
  by (relation "measure length") (auto simp: less_Suc_eq_le length_dropWhile_le)

definition cleanText :: "string \<Rightarrow> string" where
  "cleanText text_in = trim (replace_newline_runs (replace_whitespace_runs text_in))"

section \<open>PromptBuilder (chat prompt)\<close>

text \<open>\<open>Array.prototype.join\<close>.\<close>

fun join :: "string \<Rightarrow> string list \<Rightarrow> string" where
  "join sep [] = []"
| "join sep [x] = x"
| "join sep (x # y # ys) = x @ sep @ join sep (y # ys)"

record message =
  role :: string
  content :: string

record prompt_builder =
  maxContextTokens :: int

definition PromptBuilder :: "int \<Rightarrow> prompt_builder" where
  "PromptBuilder maxTokens = \<lparr>maxContextTokens = maxTokens\<rparr>"

definition format_message :: "message \<Rightarrow> string" where
  "format_message msg =
     (if role msg = ''user'' then ''User'' else ''Assistant'') @ '': '' @ content msg"

text \<open>The \<open>while\<close> loop of \<open>formatConversationHistory\<close>: \<open>formatted.shift()\<close> while the
  counted tokens exceed the limit and more than one message is left.\<close>

function truncate_oldest :: "(string \<Rightarrow> int) \<Rightarrow> int \<Rightarrow> string list \<Rightarrow> string list" where
  "truncate_oldest tokenCounter maxTokens formatted =
     (if tokenCounter (join ''\<newline>'' formatted) > maxTokens \<and> length formatted > 1
      then truncate_oldest tokenCounter maxTokens (tl formatted)
      else formatted)"
  by pat_completeness auto
termination
  by (relation "measure (\<lambda>(tokenCounter, maxTokens, formatted). length formatted)") auto

definition formatConversationHistory ::
  "message list \<Rightarrow> int \<Rightarrow> (string \<Rightarrow> int) \<Rightarrow> string" where
  "formatConversationHistory messages maxTokens tokenCounter =
     (if messages = [] then []
      else join ''\<newline>'' (truncate_oldest tokenCounter maxTokens (map format_message messages)))"

definition createPrompt :: "string \<Rightarrow> string \<Rightarrow> string" where
  "createPrompt conversationHistory newMessage =
     (if conversationHistory \<noteq> []
      then conversationHistory @ ''\<newline>User: '' @ newMessage @ ''\<newline>Assistant:''
      else ''User: '' @ newMessage @ ''\<newline>Assistant:'')"

definition buildPrompt ::
  "prompt_builder \<Rightarrow> message list \<Rightarrow> string \<Rightarrow> (string \<Rightarrow> int) \<Rightarrow> string" where
  "buildPrompt this messages newMessage tokenCounter =
     createPrompt
       (formatConversationHistory messages (maxContextTokens this - 100) tokenCounter)
       newMessage"


section \<open>Chunk records\<close>

text \<open>A chunk object as \<open>TextChunker.createChunkObject\<close> builds it (the field \<open>text\<close> is
  \<open>chunk_text\<close> here), and the chunk of the embeddings file: the same object with the field
  \<open>embedding\<close>, which the loader accepts as an array or a \<open>Float32Array\<close> and refuses as
  anything else.\<close>

record chunk_metadata =
  document_title :: string
  document_filename :: string
  source_url :: string

record chunk =
  chunk_id :: string
  document_id :: string
  chunk_text :: string
  tokens :: nat
  chunk_index :: nat
  category :: string
  language :: string
  metadata :: chunk_metadata

datatype js_embedding =
  ArrayEmbedding "real list" | Float32Embedding "real list" | OtherEmbedding

record embedded_chunk = chunk +
  embedding :: js_embedding

section \<open>VectorStore\<close>

record embeddings_data =
  chunks :: "embedded_chunk list option"
  embedding_dim :: "int option"

record vector_store =
  chunks :: "embedded_chunk list"
  embeddings :: "real list list"
  isLoaded :: bool
  embeddingDim :: int

text \<open>The constructor.\<close>

definition VectorStore :: vector_store where
  "VectorStore = \<lparr>chunks = [], embeddings = [], isLoaded = False, embeddingDim = 768\<rparr>"

text \<open>The callback of \<open>this.chunks.map\<close> in \<open>loadEmbeddings\<close>.\<close>

definition toFloat32Array :: "embedded_chunk \<Rightarrow> js_error + real list" where
  "toFloat32Array c =
     (case embedding c of
        ArrayEmbedding v \<Rightarrow> Inr v
      | Float32Embedding v \<Rightarrow> Inr v
      | OtherEmbedding \<Rightarrow> Inl (Error (''Invalid embedding format for chunk '' @ chunk_id c)))"

fun convert_embeddings :: "embedded_chunk list \<Rightarrow> js_error + real list list" where
  "convert_embeddings [] = Inr []"
| "convert_embeddings (c # cs) =
     (case toFloat32Array c of
        Inl err \<Rightarrow> Inl err
      | Inr v \<Rightarrow>
          (case convert_embeddings cs of
             Inl err \<Rightarrow> Inl err
           | Inr vs \<Rightarrow> Inr (v # vs)))"

text \<open>\<open>loadEmbeddings\<close>: \<open>None\<close> is a missing (null or undefined) argument or field. A load
  that throws returns the error only; a load that succeeds returns the store with
  \<open>chunks\<close> and \<open>embeddings\<close> parallel.\<close>

definition loadEmbeddings :: "vector_store \<Rightarrow> embeddings_data option \<Rightarrow> js_error + vector_store" where
  "loadEmbeddings this embeddingsData =
     (case embeddingsData of
        None \<Rightarrow> Inl (Error ''Invalid embeddings data format'')
      | Some data \<Rightarrow>
          (case embeddings_data.chunks data of
             None \<Rightarrow> Inl (Error ''Invalid embeddings data format'')
           | Some cs \<Rightarrow>
               (case convert_embeddings cs of
                  Inl err \<Rightarrow> Inl err
                | Inr vs \<Rightarrow>
                    Inr (this\<lparr>chunks := cs,
                              embeddingDim :=
                                (case embedding_dim data of
                                   None \<Rightarrow> 768
                                 | Some d \<Rightarrow> if d = 0 then 768 else d),
                              embeddings := vs,
                              isLoaded := True\<rparr>))))"

text \<open>The summation loops of \<open>dotProduct\<close> and \<open>cosineSimilarity\<close>.\<close>

definition dot :: "real list \<Rightarrow> real list \<Rightarrow> real" where
  "dot vec1 vec2 = foldl (\<lambda>sum (a, b). sum + a * b) 0 (zip vec1 vec2)"

definition dotProduct :: "real list \<Rightarrow> real list \<Rightarrow> js_error + real" where
  "dotProduct vec1 vec2 =
     (if length vec1 \<noteq> length vec2 then Inl (Error ''Vectors must have same length'')
      else Inr (dot vec1 vec2))"

definition cosine :: "real list \<Rightarrow> real list \<Rightarrow> real" where
  "cosine vec1 vec2 =
     (let magnitude = sqrt (dot vec1 vec1) * sqrt (dot vec2 vec2)
      in if magnitude = 0 then 0 else dot vec1 vec2 / magnitude)"

definition cosineSimilarity :: "real list \<Rightarrow> real list \<Rightarrow> js_error + real" where
  "cosineSimilarity vec1 vec2 =
     (if length vec1 \<noteq> length vec2 then Inl (Error ''Vectors must have same length'')
      else Inr (cosine vec1 vec2))"

text \<open>The optional filter object: a field that is missing or the empty string is falsy and
  filters nothing.\<close>

record filters =
  category :: "string option"
  language :: "string option"
  document_id :: "string option"

definition no_filters :: filters where
  "no_filters = \<lparr>category = None, language = None, document_id = None\<rparr>"

definition truthy :: "string option \<Rightarrow> bool" where
  "truthy v = (case v of None \<Rightarrow> False | Some s \<Rightarrow> s \<noteq> [])"

text \<open>The three \<open>continue\<close> statements of the scan.\<close>

definition filtered_out :: "filters \<Rightarrow> embedded_chunk \<Rightarrow> bool" where
  "filtered_out f c =
     ((truthy (filters.category f) \<and> Some (chunk.category c) \<noteq> filters.category f) \<or>
      (truthy (filters.language f) \<and> Some (chunk.language c) \<noteq> filters.language f) \<or>
      (truthy (filters.document_id f) \<and> Some (chunk.document_id c) \<noteq> filters.document_id f))"

record similarity =
  index :: nat
  score :: real

definition similarity_of :: "bool \<Rightarrow> real list \<Rightarrow> real list \<Rightarrow> js_error + real" where
  "similarity_of useCosineSim q e =
     (if useCosineSim then cosineSimilarity q e else dotProduct q e)"

text \<open>The scan \<open>for (let i = 0; i < this.embeddings.length; i++)\<close>, from index \<open>i\<close> on, over
  the two parallel arrays; an exception of the similarity function leaves the loop.\<close>

fun collect_similarities ::
  "filters \<Rightarrow> bool \<Rightarrow> real list \<Rightarrow> nat \<Rightarrow> embedded_chunk list \<Rightarrow> real list list \<Rightarrow>
   js_error + similarity list" where
  "collect_similarities f useCosineSim q i (c # cs) (e # es) =
     (if filtered_out f c then collect_similarities f useCosineSim q (Suc i) cs es
      else
        (case similarity_of useCosineSim q e of
           Inl err \<Rightarrow> Inl err
         | Inr s \<Rightarrow>
             (case collect_similarities f useCosineSim q (Suc i) cs es of
                Inl err \<Rightarrow> Inl err
              | Inr rest \<Rightarrow> Inr (\<lparr>index = i, score = s\<rparr> # rest))))"
| "collect_similarities f useCosineSim q i cs es = Inr []"

text \<open>\<open>Array.prototype.sort(compareFn)\<close>: a stable sort; an element goes in front of the
  first one it does not compare greater than.\<close>

fun sort_insert :: "('a \<Rightarrow> 'a \<Rightarrow> real) \<Rightarrow> 'a \<Rightarrow> 'a list \<Rightarrow> 'a list" where
  "sort_insert compareFn x [] = [x]"
| "sort_insert compareFn x (y # ys) =
     (if compareFn x y \<le> 0 then x # y # ys else y # sort_insert compareFn x ys)"

fun array_sort :: "('a \<Rightarrow> 'a \<Rightarrow> real) \<Rightarrow> 'a list \<Rightarrow> 'a list" where
  "array_sort compareFn [] = []"
| "array_sort compareFn (x # xs) = sort_insert compareFn x (array_sort compareFn xs)"

text \<open>\<open>xs.slice(0, n)\<close>: a negative \<open>n\<close> counts from the end.\<close>

definition slice_from_start :: "'a list \<Rightarrow> int \<Rightarrow> 'a list" where
  "slice_from_start xs n =
     (if n < 0 then take (nat (int (length xs) + n)) xs else take (nat n) xs)"

text \<open>Decimal numerals, for the numbers that the code puts into strings.\<close>

function string_of_nat :: "nat \<Rightarrow> string" where
  "string_of_nat n =
     (if n < 10 then [''0123456789'' ! n]
      else string_of_nat (n div 10) @ [''0123456789'' ! (n mod 10)])"
  by pat_completeness auto
termination
  by (relation "measure id") auto

definition string_of_int :: "int \<Rightarrow> string" where
  "string_of_int i = (if i < 0 then CHR ''-'' # string_of_nat (nat (- i)) else string_of_nat (nat i))"

record scored_chunk =
  result_chunk :: embedded_chunk
  similarity_score :: real

definition search ::
  "vector_store \<Rightarrow> real list \<Rightarrow> int \<Rightarrow> filters \<Rightarrow> bool \<Rightarrow> js_error + scored_chunk list" where
  "search this queryEmbedding topK f useCosineSim =
     (if \<not> vector_store.isLoaded this
      then Inl (Error ''Vector store not loaded. Call loadEmbeddings() first.'')
      else if int (length queryEmbedding) \<noteq> embeddingDim this
      then Inl (Error (''Query embedding dimension mismatch. Expected '' @
                       string_of_int (embeddingDim this) @ '', got '' @
                       string_of_nat (length queryEmbedding)))
      else
        (case collect_similarities f useCosineSim queryEmbedding 0
                (vector_store.chunks this) (embeddings this) of
           Inl err \<Rightarrow> Inl err
         | Inr similarities \<Rightarrow>
             Inr (map (\<lambda>result. \<lparr>result_chunk = vector_store.chunks this ! index result,
                                  similarity_score = score result\<rparr>)
                    (slice_from_start
                       (array_sort (\<lambda>a b. score b - score a) similarities) topK))))"


section \<open>Notions for the properties of the vector store\<close>

text \<open>The order of the result list over chunk indices: a higher score first, and among equal
  scores the chunk stored earlier.\<close>

definition ranks_before :: "(nat \<Rightarrow> real) \<Rightarrow> nat \<Rightarrow> nat \<Rightarrow> bool" where
  "ranks_before sc i j = (sc j < sc i \<or> (sc i = sc j \<and> i < j))"

text \<open>The score that the scan computes for a stored vector of the query's length.\<close>

definition sim :: "bool \<Rightarrow> real list \<Rightarrow> real list \<Rightarrow> real" where
  "sim useCosineSim q e = (if useCosineSim then cosine q e else dot q e)"

text \<open>The same order on the entries \<open>{index, score}\<close> of the scan.\<close>

definition precedes :: "similarity \<Rightarrow> similarity \<Rightarrow> bool" where
  "precedes a b = (score b < score a \<or> (score a = score b \<and> index a < index b))"

text \<open>The entries pushed by a scan in which no similarity computation throws.\<close>

definition scanned :: "filters \<Rightarrow> bool \<Rightarrow> real list \<Rightarrow> embedded_chunk list \<Rightarrow> real list list \<Rightarrow> similarity list" where
  "scanned f useCosineSim q cs es =
     map (\<lambda>j. \<lparr>index = j, score = sim useCosineSim q (es ! j)\<rparr>)
       (filter (\<lambda>j. \<not> filtered_out f (cs ! j)) [0 ..< length cs])"

text \<open>The indices of the scanned entries after the sort.\<close>

definition ranking :: "vector_store \<Rightarrow> real list \<Rightarrow> filters \<Rightarrow> bool \<Rightarrow> nat list" where
  "ranking this q f useCosineSim =
     map index (array_sort (\<lambda>a b. score b - score a)
       (scanned f useCosineSim q (vector_store.chunks this) (embeddings this)))"

text \<open>An index of three chunks with unit vectors, as in the specification's first end-to-end
  scenario, for the concrete evaluations below.\<close>

definition example_chunk :: "string \<Rightarrow> string \<Rightarrow> js_embedding \<Rightarrow> embedded_chunk" where
  "example_chunk cid doc emb =
     \<lparr>chunk_id = cid, document_id = doc, chunk_text = ''text of '' @ cid, tokens = 3,
      chunk_index = 0, category = ''safety'', language = ''en'',
      metadata = \<lparr>document_title = doc, document_filename = doc, source_url = []\<rparr>,
      embedding = emb\<rparr>"

definition example_data :: embeddings_data where
  "example_data =
     \<lparr>embeddings_data.chunks = Some [example_chunk ''A_chunk_0'' ''A'' (ArrayEmbedding [1, 0, 0]),
                     example_chunk ''B_chunk_0'' ''B'' (ArrayEmbedding [0, 1, 0]),
                     example_chunk ''A_chunk_1'' ''A'' (Float32Embedding [0, 0, 1])],
      embedding_dim = Some 3\<rparr>"

definition example_store :: vector_store where
  "example_store =
     \<lparr>chunks = [example_chunk ''A_chunk_0'' ''A'' (ArrayEmbedding [1, 0, 0]),
                example_chunk ''B_chunk_0'' ''B'' (ArrayEmbedding [0, 1, 0]),
                example_chunk ''A_chunk_1'' ''A'' (Float32Embedding [0, 0, 1])],
      embeddings = [[1, 0, 0], [0, 1, 0], [0, 0, 1]],
      isLoaded = True, embeddingDim = 3\<rparr>"

text \<open>The numbers of an accepted embedding.\<close>

definition vector_of :: "embedded_chunk \<Rightarrow> real list" where
  "vector_of c =
     (case embedding c of ArrayEmbedding v \<Rightarrow> v | Float32Embedding v \<Rightarrow> v | OtherEmbedding \<Rightarrow> [])"

section \<open>EmbeddingManager\<close>

text \<open>The embedding model (a Transformers.js pipeline) is outside the repository: it is the
  field \<open>pipeline\<close>, a function from the text to the vector it returns or the error it
  throws; \<open>None\<close> is the \<open>null\<close> of the constructor.\<close>

record embedding_manager =
  isLoaded :: bool
  pipeline :: "(string \<Rightarrow> js_error + real list) option"

definition embedText :: "embedding_manager \<Rightarrow> string \<Rightarrow> js_error + real list" where
  "embedText this text_in =
     (case embedding_manager.pipeline this of
        None \<Rightarrow> Inl (Error ''Embedding model not loaded. Call loadModel() first.'')
      | Some run \<Rightarrow>
          if \<not> embedding_manager.isLoaded this
          then Inl (Error ''Embedding model not loaded. Call loadModel() first.'')
          else if text_in = [] then Inl (Error ''Text must be a non-empty string'')
          else run text_in)"

section \<open>QueryRouter\<close>

text \<open>The argument \<open>userQuery\<close> can be any JavaScript value.\<close>

datatype js_value =
  JSString string | JSNumber real | JSBoolean bool | JSNull | JSUndefined | JSObject

text \<open>The calls that a routing makes on its collaborators, in order.\<close>

datatype call = EmbedTextCall string | SearchCall "real list" int

text \<open>The \<open>reason\<close> texts; the two that print the top score carry it.\<close>

datatype route_reason =
  ForcedRag | ForcedGeneral | NoDocuments | HighSimilarity real | LowSimilarity real
  | NotDocumentRelated | RoutingError string

record routing_decision =
  mode :: string
  confidence :: real
  reason :: route_reason
  relevantChunks :: "scored_chunk list"
  error_message :: "string option"

record query_router =
  embeddingManager :: embedding_manager
  vectorStore :: vector_store
  thresholdSimilarity :: real
  minimumConfidence :: real

text \<open>The constructor.\<close>

definition QueryRouter :: "embedding_manager \<Rightarrow> vector_store \<Rightarrow> query_router" where
  "QueryRouter em vs =
     \<lparr>embeddingManager = em, vectorStore = vs,
      thresholdSimilarity = 0.6, minimumConfidence = 0.4\<rparr>"

record route_options =
  forceMode :: "string option"
  topK :: int

definition default_route_options :: route_options where
  "default_route_options = \<lparr>forceMode = None, topK = 1\<rparr>"

definition message_of :: "js_error \<Rightarrow> string" where
  "message_of err = (case err of Error m \<Rightarrow> m | TypeError m \<Rightarrow> m)"

text \<open>The \<open>catch\<close> block of \<open>routeQuery\<close>.\<close>

definition routing_fallback :: "js_error \<Rightarrow> routing_decision" where
  "routing_fallback err =
     \<lparr>routing_decision.mode = ''general'', confidence = 0.5, reason = RoutingError (message_of err),
      relevantChunks = [], error_message = Some (message_of err)\<rparr>"

text \<open>The decision on the search results.\<close>

definition decide :: "query_router \<Rightarrow> scored_chunk list \<Rightarrow> routing_decision" where
  "decide this results =
     (case results of
        [] \<Rightarrow>
          \<lparr>routing_decision.mode = ''general'', confidence = 1, reason = NoDocuments,
           relevantChunks = [], error_message = None\<rparr>
      | best # others \<Rightarrow>
          (let topScore = similarity_score best in
           if topScore \<ge> thresholdSimilarity this
           then \<lparr>routing_decision.mode = ''rag'', confidence = topScore, reason = HighSimilarity topScore,
                 relevantChunks = results, error_message = None\<rparr>
           else if topScore \<ge> minimumConfidence this
           then \<lparr>routing_decision.mode = ''general'', confidence = 1 - topScore, reason = LowSimilarity topScore,
                 relevantChunks = results, error_message = None\<rparr>
           else \<lparr>routing_decision.mode = ''general'', confidence = 1, reason = NotDocumentRelated,
                 relevantChunks = [], error_message = None\<rparr>))"

text \<open>\<open>routeQuery\<close>: the result (\<open>Inl\<close> is the rejected promise) and the calls made.\<close>

definition routeQuery ::
  "query_router \<Rightarrow> js_value \<Rightarrow> route_options \<Rightarrow> (js_error + routing_decision) \<times> call list" where
  "routeQuery this userQuery options =
     (case userQuery of
        JSString q \<Rightarrow>
          if q = [] then (Inl (Error ''User query must be a non-empty string''), [])
          else if forceMode options = Some ''rag''
          then (Inr \<lparr>routing_decision.mode = ''rag'', confidence = 1, reason = ForcedRag,
                     relevantChunks = [], error_message = None\<rparr>, [])
          else if forceMode options = Some ''general''
          then (Inr \<lparr>routing_decision.mode = ''general'', confidence = 1, reason = ForcedGeneral,
                     relevantChunks = [], error_message = None\<rparr>, [])
          else
            (case embedText (embeddingManager this) q of
               Inl err \<Rightarrow> (Inr (routing_fallback err), [EmbedTextCall q])
             | Inr queryEmbedding \<Rightarrow>
                 (case search (vectorStore this) queryEmbedding (topK options) no_filters False of
                    Inl err \<Rightarrow>
                      (Inr (routing_fallback err),
                       [EmbedTextCall q, SearchCall queryEmbedding (topK options)])
                  | Inr results \<Rightarrow>
                      (Inr (decide this results),
                       [EmbedTextCall q, SearchCall queryEmbedding (topK options)])))
      | _ \<Rightarrow> (Inl (Error ''User query must be a non-empty string''), []))"

section \<open>DocumentManager\<close>

text \<open>A document and a category of the metadata files (their field \<open>id\<close> is \<open>doc_id\<close> and
  \<open>category_id\<close> here).\<close>

record document =
  doc_id :: string
  title :: string
  filename :: string
  source_url :: string
  category :: string
  language :: string

record category_entry =
  category_id :: string
  name_uk :: string
  name_en :: string

record document_manager =
  documents :: "document list"
  categories :: "category_entry list"
  documentsById :: "string \<rightharpoonup> document"
  isLoaded :: bool

text \<open>The constructor, and the index \<open>documentsById\<close> as the \<open>forEach\<close> of \<open>loadMetadata\<close>
  fills it: a later document replaces an earlier one of the same id.\<close>

definition DocumentManager :: document_manager where
  "DocumentManager =
     \<lparr>documents = [], categories = [], documentsById = Map.empty, isLoaded = False\<rparr>"

definition index_by_id :: "document list \<Rightarrow> (string \<rightharpoonup> document)" where
  "index_by_id docs = foldl (\<lambda>m doc. m(doc_id doc \<mapsto> doc)) Map.empty docs"

definition loadMetadata ::
  "document_manager \<Rightarrow> document list option \<Rightarrow> category_entry list option \<Rightarrow>
   js_error + document_manager" where
  "loadMetadata this documentsData categoriesData =
     (case documentsData of
        None \<Rightarrow> Inl (Error ''Invalid documents data format'')
      | Some docs \<Rightarrow>
          (case categoriesData of
             None \<Rightarrow> Inl (Error ''Invalid categories data format'')
           | Some cats \<Rightarrow>
               Inr (this\<lparr>documents := docs, categories := cats,
                         documentsById := index_by_id docs,
                         document_manager.isLoaded := True\<rparr>)))"

definition getDocumentById :: "document_manager \<Rightarrow> string \<Rightarrow> document option" where
  "getDocumentById this ident = documentsById this ident"

definition getCategoryById :: "document_manager \<Rightarrow> string \<Rightarrow> category_entry option" where
  "getCategoryById this categoryId = find (\<lambda>cat. category_id cat = categoryId) (categories this)"

definition getCategoryName :: "document_manager \<Rightarrow> string \<Rightarrow> string \<Rightarrow> string" where
  "getCategoryName this categoryId lang =
     (case getCategoryById this categoryId of
        None \<Rightarrow> categoryId
      | Some cat \<Rightarrow> if lang = ''en'' then name_en cat else name_uk cat)"

section \<open>RAGPipeline: source attribution\<close>

record source =
  document_id :: string
  title :: string
  category :: string
  categoryName :: string
  source_url :: string
  language :: string
  filename :: string

text \<open>The object pushed for a chunk whose document \<open>doc\<close> was found.\<close>

definition source_entry :: "document_manager \<Rightarrow> document \<Rightarrow> scored_chunk \<Rightarrow> source" where
  "source_entry dm doc c =
     \<lparr>source.document_id = doc_id doc,
      title = document.title doc,
      category = document.category doc,
      categoryName =
        getCategoryName dm (document.category doc) (chunk.language (result_chunk c)),
      source_url = document.source_url doc,
      language = document.language doc,
      filename = document.filename doc\<rparr>"

text \<open>The loop of \<open>extractSources\<close> with its two variables, the set \<open>uniqueDocs\<close> and the
  array \<open>sources\<close>.\<close>

fun extractSources_loop ::
  "document_manager \<Rightarrow> string set \<Rightarrow> source list \<Rightarrow> scored_chunk list \<Rightarrow> source list" where
  "extractSources_loop dm uniqueDocs sources [] = sources"
| "extractSources_loop dm uniqueDocs sources (c # rest) =
     (if chunk.document_id (result_chunk c) \<in> uniqueDocs
      then extractSources_loop dm uniqueDocs sources rest
      else
        (case getDocumentById dm (chunk.document_id (result_chunk c)) of
           None \<Rightarrow>
             extractSources_loop dm
               (insert (chunk.document_id (result_chunk c)) uniqueDocs) sources rest
         | Some doc \<Rightarrow>
             extractSources_loop dm
               (insert (chunk.document_id (result_chunk c)) uniqueDocs)
               (sources @ [source_entry dm doc c]) rest))"

definition extractSources :: "document_manager \<Rightarrow> scored_chunk list \<Rightarrow> source list" where
  "extractSources dm retrieved = extractSources_loop dm {} [] retrieved"

section \<open>Notions for the properties of the source attribution\<close>

text \<open>The document id that a retrieved chunk names.\<close>

definition chunk_document :: "scored_chunk \<Rightarrow> string" where
  "chunk_document c = chunk.document_id (result_chunk c)"

text \<open>The first retrieved chunk of every distinct document id, in retrieval order.\<close>

fun first_per_document :: "scored_chunk list \<Rightarrow> scored_chunk list" where
  "first_per_document [] = []"
| "first_per_document (c # cs) =
     c # first_per_document (filter (\<lambda>d. chunk_document d \<noteq> chunk_document c) cs)"

text \<open>What one such chunk contributes: an entry when its document id is in the catalog,
  nothing otherwise.\<close>

definition source_entries :: "document_manager \<Rightarrow> scored_chunk \<Rightarrow> source list" where
  "source_entries dm c =
     (case getDocumentById dm (chunk_document c) of
        None \<Rightarrow> []
      | Some doc \<Rightarrow> [source_entry dm doc c])"


text \<open>A catalog of two documents and a retrieval that names document \<open>A\<close> twice and a
  document \<open>X\<close> that the catalog does not have, for the concrete evaluations below.\<close>

definition example_documents :: "document list" where
  "example_documents =
     [\<lparr>doc_id = ''A'', title = ''Fire safety rules'', filename = ''a.pdf'',
       source_url = ''https://example.org/a'', category = ''safety'', language = ''en''\<rparr>,
      \<lparr>doc_id = ''B'', title = ''Dormitory rules'', filename = ''b.pdf'',
       source_url = ''https://example.org/b'', category = ''dormitories'', language = ''en''\<rparr>]"

definition example_manager :: document_manager where
  "example_manager =
     \<lparr>documents = example_documents,
      categories = [\<lparr>category_id = ''safety'', name_uk = ''Bezpeka'', name_en = ''Safety''\<rparr>],
      documentsById = index_by_id example_documents,
      isLoaded = True\<rparr>"

definition example_retrieved :: "scored_chunk list" where
  "example_retrieved =
     [\<lparr>result_chunk = example_chunk ''A_chunk_0'' ''A'' (ArrayEmbedding [1, 0, 0]),
       similarity_score = 1\<rparr>,
      \<lparr>result_chunk = example_chunk ''X_chunk_0'' ''X'' (ArrayEmbedding [0, 1, 0]),
       similarity_score = 0.5\<rparr>,
      \<lparr>result_chunk = example_chunk ''A_chunk_1'' ''A'' (ArrayEmbedding [0, 0, 1]),
       similarity_score = 0.2\<rparr>]"

section \<open>TextChunker\<close>

definition TARGET_TOKENS :: nat where
  "TARGET_TOKENS = 250"

definition OVERLAP_TOKENS :: nat where
  "OVERLAP_TOKENS = 50"

definition MIN_CHUNK_TOKENS :: nat where
  "MIN_CHUNK_TOKENS = 100"

text \<open>\<open>Math.ceil(text.length / 3.5)\<close>.\<close>

definition estimateTokens :: "string \<Rightarrow> nat" where
  "estimateTokens t = nat \<lceil>real (length t) / 3.5\<rceil>"

text \<open>\<open>text.split(/\s+/)\<close>: the pieces between the maximal runs of white space; a string
  that begins or ends with white space has an empty first or last piece, and the empty
  string has the one piece \<open>''\<close>.\<close>

function split_whitespace :: "string \<Rightarrow> string list" where
  "split_whitespace s =
     (if dropWhile (\<lambda>c. \<not> isWhiteSpace c) s = []
      then [takeWhile (\<lambda>c. \<not> isWhiteSpace c) s]
      else takeWhile (\<lambda>c. \<not> isWhiteSpace c) s #
           split_whitespace (dropWhile isWhiteSpace (dropWhile (\<lambda>c. \<not> isWhiteSpace c) s)))"
  by pat_completeness auto
termination
proof (relation "measure length")
  show "wf (measure length)" by simp
next
  fix s :: string
  assume ne: "dropWhile (\<lambda>c. \<not> isWhiteSpace c) s \<noteq> []"
  let ?rest = "dropWhile (\<lambda>c. \<not> isWhiteSpace c) s"
  from ne have "isWhiteSpace (hd ?rest)"
    using hd_dropWhile [of "\<lambda>c. \<not> isWhiteSpace c" s] by simp
  with ne have "length (dropWhile isWhiteSpace ?rest) < length ?rest"
    by (cases ?rest) (auto simp: less_Suc_eq_le length_dropWhile_le)
  moreover have "length ?rest \<le> length s" by (rule length_dropWhile_le)
  ultimately show "(dropWhile isWhiteSpace ?rest, s) \<in> measure length" by simp
qed

text \<open>\<open>xs.slice(-n)\<close> for \<open>n \<ge> 1\<close>: the last \<open>n\<close> elements, all of them when there are
  fewer.\<close>

definition slice_last :: "'a list \<Rightarrow> nat \<Rightarrow> 'a list" where
  "slice_last xs n = drop (length xs - n) xs"

text \<open>\<open>getOverlapText\<close>: \<open>words.slice(-overlapWords).join(' ')\<close>.\<close>

definition getOverlapText :: "string \<Rightarrow> nat \<Rightarrow> string" where
  "getOverlapText t n =
     (let words = split_whitespace t;
          overlapWords = min n (length words)
      in if overlapWords \<le> 0 then []
         else join '' '' (slice_last words overlapWords))"

definition createChunkObject :: "string \<Rightarrow> document \<Rightarrow> nat \<Rightarrow> nat \<Rightarrow> chunk" where
  "createChunkObject t doc chunkIndex n =
     \<lparr>chunk_id = doc_id doc @ ''_chunk_'' @ string_of_nat chunkIndex,
      document_id = doc_id doc,
      chunk_text = t,
      tokens = n,
      chunk_index = chunkIndex,
      category = document.category doc,
      language = document.language doc,
      metadata = \<lparr>document_title = document.title doc,
                  document_filename = document.filename doc,
                  source_url = document.source_url doc\<rparr>\<rparr>"

text \<open>The variables of the loop of \<open>createChunks\<close>.\<close>

record chunker_state =
  chunks :: "chunk list"
  currentChunk :: string
  currentTokens :: nat
  chunkIndex :: nat

definition initial_chunker_state :: chunker_state where
  "initial_chunker_state =
     \<lparr>chunks = [], currentChunk = [], currentTokens = 0, chunkIndex = 0\<rparr>"

text \<open>One iteration of the loop, for the sentence \<open>sentences[i]\<close>.\<close>

definition chunk_step :: "document \<Rightarrow> chunker_state \<Rightarrow> string \<Rightarrow> chunker_state" where
  "chunk_step doc st sentence =
     (let sentenceTokens = estimateTokens sentence in
      if currentTokens st + sentenceTokens > TARGET_TOKENS \<and> currentChunk st \<noteq> []
      then
        (let overlapText = getOverlapText (currentChunk st) OVERLAP_TOKENS;
             seeded = (if overlapText \<noteq> [] then overlapText @ '' '' @ sentence else sentence)
         in \<lparr>chunks = chunker_state.chunks st @
                  [createChunkObject (trim (currentChunk st)) doc (chunkIndex st) (currentTokens st)],
             currentChunk = seeded,
             currentTokens = estimateTokens seeded,
             chunkIndex = chunkIndex st + 1\<rparr>)
      else
        st\<lparr>currentChunk :=
             currentChunk st @ (if currentChunk st \<noteq> [] then '' '' else []) @ sentence,
           currentTokens := currentTokens st + sentenceTokens\<rparr>)"

text \<open>The loop over the sentences, and \<open>createChunks\<close> with its final test.\<close>

definition chunker_loop :: "document \<Rightarrow> string list \<Rightarrow> chunker_state" where
  "chunker_loop doc sentences = foldl (chunk_step doc) initial_chunker_state sentences"

definition createChunks :: "string list \<Rightarrow> document \<Rightarrow> chunk list" where
  "createChunks sentences doc =
     (let st = chunker_loop doc sentences in
      if currentChunk st \<noteq> [] \<and> currentTokens st \<ge> MIN_CHUNK_TOKENS
      then chunker_state.chunks st @
             [createChunkObject (trim (currentChunk st)) doc (chunkIndex st) (currentTokens st)]
      else chunker_state.chunks st)"

section \<open>PromptBuilder (response extraction)\<close>

text \<open>\<open>s.includes(sub)\<close> and \<open>s.split(sep)[0]\<close> (for a non-empty \<open>sep\<close>).\<close>

fun js_includes :: "string \<Rightarrow> string \<Rightarrow> bool" where
  "js_includes [] sub = (sub = [])"
| "js_includes (c # cs) sub = (take (length sub) (c # cs) = sub \<or> js_includes cs sub)"

fun before_first :: "string \<Rightarrow> string \<Rightarrow> string" where
  "before_first [] sep = []"
| "before_first (c # cs) sep =
     (if take (length sep) (c # cs) = sep then [] else c # before_first cs sep)"

text \<open>The body of the \<open>for\<close> loop over the role prefixes.\<close>

definition strip_prefix :: "string \<Rightarrow> string \<Rightarrow> string" where
  "strip_prefix response pre =
     (if take (length pre) response = pre then trim (drop (length pre) response)
      else response)"

definition extractResponse :: "string \<Rightarrow> string" where
  "extractResponse generatedText =
     (let r0 = trim generatedText;
          r1 = (if js_includes r0 ''\<newline>User:'' then trim (before_first r0 ''\<newline>User:'') else r0);
          r2 = (if js_includes r1 ''\<newline>Assistant:''
                then trim (before_first r1 ''\<newline>Assistant:'') else r1)
      in foldl strip_prefix r2 [''Assistant:'', ''Bot:'', ''AI:'', ''GPT:''])"

text \<open>The object passed to \<open>RAGPipeline\<close> as \<open>promptBuilder\<close>, as the pipeline uses it: the two
  properties it calls, each a function or \<open>undefined\<close> (\<open>None\<close>). Class \<open>PromptBuilder\<close>
  defines \<open>formatConversationHistory\<close>, \<open>createPrompt\<close>, \<open>extractResponse\<close>, \<open>buildPrompt\<close>,
  \<open>validateMessage\<close> and \<open>calculatePromptTokens\<close>, and no \<open>buildRAGPrompt\<close>.\<close>

record prompt_builder_object =
  buildRAGPrompt_method :: "(string \<Rightarrow> string \<Rightarrow> string) option"
  extractResponse_method :: "(string \<Rightarrow> string) option"

definition PromptBuilder_object :: "prompt_builder \<Rightarrow> prompt_builder_object" where
  "PromptBuilder_object this =
     \<lparr>buildRAGPrompt_method = None, extractResponse_method = Some extractResponse\<rparr>"

section \<open>ModelManager\<close>

text \<open>The generation options of the caller; a missing or zero option is replaced by its
  default (\<open>config.max_length || 100\<close>). The text-generation model is outside the
  repository: it is the field \<open>pipeline\<close>, a function from the prompt and the five numeric
  options to the generated text or the error it throws.\<close>

record generation_config =
  max_length :: "real option"
  temperature :: "real option"
  top_k :: "real option"
  top_p :: "real option"
  repetition_penalty :: "real option"

definition default_generation_config :: generation_config where
  "default_generation_config =
     \<lparr>max_length = None, temperature = None, top_k = None, top_p = None,
      repetition_penalty = None\<rparr>"

definition or_default :: "real option \<Rightarrow> real \<Rightarrow> real" where
  "or_default v d = (case v of None \<Rightarrow> d | Some x \<Rightarrow> if x = 0 then d else x)"

record model_manager =
  isLoaded :: bool
  pipeline :: "(string \<Rightarrow> real \<Rightarrow> real \<Rightarrow> real \<Rightarrow> real \<Rightarrow> real \<Rightarrow> js_error + string) option"

definition generateResponse :: "model_manager \<Rightarrow> string \<Rightarrow> generation_config \<Rightarrow> js_error + string" where
  "generateResponse this prompt config =
     (case model_manager.pipeline this of
        None \<Rightarrow> Inl (Error ''Model not loaded. Call loadModel() first.'')
      | Some run \<Rightarrow>
          if \<not> model_manager.isLoaded this
          then Inl (Error ''Model not loaded. Call loadModel() first.'')
          else run prompt
                 (or_default (max_length config) 100)
                 (or_default (temperature config) 0.7)
                 (or_default (top_k config) 50)
                 (or_default (top_p config) 0.9)
                 (or_default (repetition_penalty config) 1.2))"

section \<open>RAGPipeline\<close>

text \<open>The Ukrainian halves of the three bilingual literals, as their UTF-8 bytes.\<close>

definition no_results_uk :: string where
  "no_results_uk =
     [CHR 0xD0, CHR 0x9D, CHR 0xD0, CHR 0xB5, CHR 0x20, CHR 0xD0, CHR 0xB7, CHR 0xD0,
     CHR 0xBD, CHR 0xD0, CHR 0xB0, CHR 0xD0, CHR 0xB9, CHR 0xD0, CHR 0xB4, CHR 0xD0, CHR
     0xB5, CHR 0xD0, CHR 0xBD, CHR 0xD0, CHR 0xBE, CHR 0x20, CHR 0xD1, CHR 0x80, CHR
     0xD0, CHR 0xB5, CHR 0xD0, CHR 0xBB, CHR 0xD0, CHR 0xB5, CHR 0xD0, CHR 0xB2, CHR
     0xD0, CHR 0xB0, CHR 0xD0, CHR 0xBD, CHR 0xD1, CHR 0x82, CHR 0xD0, CHR 0xBD, CHR
     0xD0, CHR 0xB8, CHR 0xD1, CHR 0x85, CHR 0x20, CHR 0xD0, CHR 0xB4, CHR 0xD0, CHR
     0xBE, CHR 0xD0, CHR 0xBA, CHR 0xD1, CHR 0x83, CHR 0xD0, CHR 0xBC, CHR 0xD0, CHR
     0xB5, CHR 0xD0, CHR 0xBD, CHR 0xD1, CHR 0x82, CHR 0xD1, CHR 0x96, CHR 0xD0, CHR
     0xB2, CHR 0x2E]"

definition error_uk :: string where
  "error_uk =
     [CHR 0xD0, CHR 0x92, CHR 0xD0, CHR 0xB8, CHR 0xD0, CHR 0xBD, CHR 0xD0, CHR 0xB8,
     CHR 0xD0, CHR 0xBA, CHR 0xD0, CHR 0xBB, CHR 0xD0, CHR 0xB0, CHR 0x20, CHR 0xD0, CHR
     0xBF, CHR 0xD0, CHR 0xBE, CHR 0xD0, CHR 0xBC, CHR 0xD0, CHR 0xB8, CHR 0xD0, CHR
     0xBB, CHR 0xD0, CHR 0xBA, CHR 0xD0, CHR 0xB0, CHR 0x20, CHR 0xD0, CHR 0xBF, CHR
     0xD1, CHR 0x80, CHR 0xD0, CHR 0xB8, CHR 0x20, CHR 0xD0, CHR 0xBE, CHR 0xD0, CHR
     0xB1, CHR 0xD1, CHR 0x80, CHR 0xD0, CHR 0xBE, CHR 0xD0, CHR 0xB1, CHR 0xD1, CHR
     0x86, CHR 0xD1, CHR 0x96, CHR 0x20, CHR 0xD0, CHR 0xB7, CHR 0xD0, CHR 0xB0, CHR
     0xD0, CHR 0xBF, CHR 0xD0, CHR 0xB8, CHR 0xD1, CHR 0x82, CHR 0xD1, CHR 0x83, CHR
     0x2E]"

definition source_uk :: string where
  "source_uk =
     [CHR 0xD0, CHR 0x94, CHR 0xD0, CHR 0xB6, CHR 0xD0, CHR 0xB5, CHR 0xD1, CHR 0x80,
     CHR 0xD0, CHR 0xB5, CHR 0xD0, CHR 0xBB, CHR 0xD0, CHR 0xBE]"

record retrieved_chunk =
  r_chunk_id :: string
  r_text :: string
  r_document_id :: string
  r_similarity_score :: real
  r_category :: string
  r_language :: string

record rag_metadata =
  queryTime :: real
  embeddingTime :: "real option"
  retrievalTime :: "real option"
  generationTime :: "real option"
  retrievedCount :: nat
  sourceCount :: "nat option"
  avgSimilarity :: "real option"

record rag_response =
  mode :: string
  answer :: string
  error :: "string option"
  retrievedChunks :: "retrieved_chunk list"
  sources :: "source list"
  metadata :: "rag_metadata option"

record rag_pipeline =
  embeddingManager :: embedding_manager
  vectorStore :: vector_store
  documentManager :: document_manager
  modelManager :: model_manager
  promptBuilder :: prompt_builder_object

record query_options =
  topK :: int
  filters :: filters
  generationConfig :: generation_config
  includeMetadata :: bool

definition default_query_options :: query_options where
  "default_query_options =
     \<lparr>topK = 5, filters = no_filters, generationConfig = default_generation_config,
      includeMetadata = True\<rparr>"

text \<open>\<open>buildContext\<close>: the callback of \<open>chunks.map\<close> for the chunk at index \<open>idx\<close>, and the
  join.\<close>

definition context_block :: "nat \<Rightarrow> scored_chunk \<Rightarrow> string" where
  "context_block idx c =
     ''['' @ source_uk @ '' '' @ string_of_nat (idx + 1) @ '' / Source '' @
     string_of_nat (idx + 1) @ '']:\<newline>'' @ chunk_text (result_chunk c)"

definition buildContext :: "scored_chunk list \<Rightarrow> string" where
  "buildContext cs =
     join ''\<newline>\<newline>'' (map (\<lambda>(idx, c). context_block idx c) (zip [0 ..< length cs] cs))"

text \<open>\<open>Number.prototype.toFixed(3)\<close> read back by \<open>parseFloat\<close>: rounding to three decimals,
  halves away from zero.\<close>

definition toFixed3 :: "real \<Rightarrow> real" where
  "toFixed3 x = sgn x * real_of_int \<lfloor>\<bar>x\<bar> * 1000 + 1 / 2\<rfloor> / 1000"

definition calculateAvgSimilarity :: "scored_chunk list \<Rightarrow> real" where
  "calculateAvgSimilarity cs =
     (if cs = [] then 0
      else toFixed3 (foldl (\<lambda>acc c. acc + similarity_score c) 0 cs / real (length cs)))"

text \<open>The \<open>catch\<close> block of \<open>query\<close>.\<close>

definition error_response :: "js_error \<Rightarrow> rag_response" where
  "error_response err =
     \<lparr>mode = ''error'',
      answer = error_uk @ '' / An error occurred while processing your request.'',
      error = Some (message_of err),
      retrievedChunks = [], sources = [], metadata = None\<rparr>"

definition retrieved_of :: "scored_chunk \<Rightarrow> retrieved_chunk" where
  "retrieved_of c =
     \<lparr>r_chunk_id = chunk_id (result_chunk c),
      r_text = chunk_text (result_chunk c),
      r_document_id = chunk.document_id (result_chunk c),
      r_similarity_score = similarity_score c,
      r_category = chunk.category (result_chunk c),
      r_language = chunk.language (result_chunk c)\<rparr>"

text \<open>\<open>query\<close>. The clock \<open>now\<close> gives the readings of \<open>performance.now()\<close> in the order of
  the calls. Every exception inside the \<open>try\<close> ends in \<open>error_response\<close>: of the embedder,
  of the search, of the call of a property of \<open>promptBuilder\<close> that is \<open>undefined\<close>, of the
  generator, and of the final \<open>console.log\<close>, which reads \<open>response.metadata.queryTime\<close>
  also when \<open>includeMetadata\<close> is false and \<open>response.metadata\<close> was never set.\<close>

definition query ::
  "rag_pipeline \<Rightarrow> (nat \<Rightarrow> real) \<Rightarrow> string \<Rightarrow> query_options \<Rightarrow> rag_response" where
  "query this now userQuery options =
     (case embedText (rag_pipeline.embeddingManager this) userQuery of
        Inl err \<Rightarrow> error_response err
      | Inr queryEmbedding \<Rightarrow>
     (let embedTime = now 1 - now 0 in
      case search (rag_pipeline.vectorStore this) queryEmbedding (query_options.topK options)
             (query_options.filters options) False of
        Inl err \<Rightarrow> error_response err
      | Inr retrieved \<Rightarrow>
     (let retrievalTime = now 3 - now 2 in
      if retrieved = []
      then \<lparr>mode = ''no_results'',
            answer = no_results_uk @ '' / No relevant documents found.'',
            error = None, retrievedChunks = [], sources = [],
            metadata = Some \<lparr>queryTime = embedTime + retrievalTime, embeddingTime = None,
                             retrievalTime = None, generationTime = None,
                             retrievedCount = 0, sourceCount = None,
                             avgSimilarity = None\<rparr>\<rparr>
      else
     (case buildRAGPrompt_method (promptBuilder this) of
        None \<Rightarrow>
          error_response (TypeError ''this.promptBuilder.buildRAGPrompt is not a function'')
      | Some build \<Rightarrow>
     (case generateResponse (modelManager this) (build userQuery (buildContext retrieved))
             (generationConfig options) of
        Inl err \<Rightarrow> error_response err
      | Inr generatedAnswer \<Rightarrow>
     (let generationTime = now 5 - now 4 in
      case extractResponse_method (promptBuilder this) of
        None \<Rightarrow>
          error_response (TypeError ''this.promptBuilder.extractResponse is not a function'')
      | Some extract \<Rightarrow>
     (let found = extractSources (documentManager this) retrieved in
      if includeMetadata options
      then \<lparr>mode = ''rag'',
            answer = extract generatedAnswer,
            error = None,
            retrievedChunks = map retrieved_of retrieved,
            sources = found,
            metadata = Some \<lparr>queryTime = embedTime + retrievalTime + generationTime,
                             embeddingTime = Some embedTime,
                             retrievalTime = Some retrievalTime,
                             generationTime = Some generationTime,
                             retrievedCount = length retrieved,
                             sourceCount = Some (length found),
                             avgSimilarity = Some (calculateAvgSimilarity retrieved)\<rparr>\<rparr>
      else error_response
             (TypeError (''Cannot read properties of undefined (reading '' @ [CHR 0x27] @
                         ''queryTime'' @ [CHR 0x27] @ '')'')))))))))"

text \<open>A pipeline over the example index and catalog whose prompt builder is the repository's
  \<open>PromptBuilder\<close>, with an embedder that returns the first unit vector and a generator
  that returns a fixed text, for the concrete evaluation below.\<close>

definition example_pipeline :: rag_pipeline where
  "example_pipeline =
     \<lparr>embeddingManager =
        \<lparr>embedding_manager.isLoaded = True, pipeline = Some (\<lambda>t. Inr [1, 0, 0])\<rparr>,
      vectorStore = example_store,
      documentManager = example_manager,
      modelManager =
        \<lparr>model_manager.isLoaded = True,
         pipeline = Some (\<lambda>prompt a b c d e. Inr ''Keep the exits clear.'')\<rparr>,
      promptBuilder = PromptBuilder_object (PromptBuilder 512)\<rparr>"

section \<open>Properties of the text extractor\<close>

lemma newline_is_white_space: "isWhiteSpace (CHR 0x0A)"
  by (simp add: isWhiteSpace_def)

lemma replace_whitespace_runs_no_newline:
  "CHR 0x0A \<notin> set (replace_whitespace_runs s)"
proof (induction s rule: replace_whitespace_runs.induct)
  case 1
  show ?case by simp
next
  case (2 c cs)
  show ?case
  proof (cases "isWhiteSpace c")
    case True
    with 2 show ?thesis by simp
  next
    case False
    then have "c \<noteq> CHR 0x0A" using newline_is_white_space by auto
    with 2 False show ?thesis by simp
  qed
qed

lemma replace_newline_runs_id:
  "CHR 0x0A \<notin> set s \<Longrightarrow> replace_newline_runs s = s"
  by (induction s) auto

text \<open>The second replacement of \<open>cleanText\<close> never fires: the first one has already turned
  every newline into a space.\<close>

lemma cleanText_second_step_dead:
  "cleanText s = trim (replace_whitespace_runs s)"
  by (simp add: cleanText_def replace_newline_runs_id replace_whitespace_runs_no_newline)

text \<open>
  Claim C4. The extractor's normalisation collapses white space, then runs of three or more
  newlines, then trims; the specification's example says that \<open>A\<close>, two spaces, four
  newlines, \<open>B\<close> becomes \<open>A\<close>, two newlines, \<open>B\<close>. On the code the first replacement
  also consumes the newlines (\<open>\s\<close> matches them), so the result is \<open>A\<close>, one space,
  \<open>B\<close>, and not the string of the example.
\<close>

theorem cleanText_spec_example:
  "cleanText ''A  \<newline>\<newline>\<newline>\<newline>B'' = ''A B'' \<and>
   cleanText ''A  \<newline>\<newline>\<newline>\<newline>B'' \<noteq> ''A\<newline>\<newline>B''"
  by (simp add: cleanText_def trim_def isWhiteSpace_def)

section \<open>Properties of the chat prompt\<close>

lemmas truncate_oldest_unfold = truncate_oldest.simps

declare truncate_oldest.simps [simp del]

lemma truncate_oldest_drops_front:
  "formatted \<noteq> [] \<Longrightarrow>
   \<exists>k < length formatted.
     truncate_oldest tokenCounter maxTokens formatted = drop k formatted \<and>
     (tokenCounter (join ''\<newline>'' (drop k formatted)) \<le> maxTokens \<or>
      k = length formatted - 1)"
proof (induction tokenCounter maxTokens formatted rule: truncate_oldest.induct)
  case (1 tokenCounter maxTokens formatted)
  show ?case
  proof (cases "tokenCounter (join ''\<newline>'' formatted) > maxTokens \<and> length formatted > 1")
    case True
    then have ne: "tl formatted \<noteq> []"
      by (cases formatted) auto
    from "1.IH" [OF True ne] obtain k where k: "k < length (tl formatted)"
      and eq: "truncate_oldest tokenCounter maxTokens (tl formatted) = drop k (tl formatted)"
      and fit: "tokenCounter (join ''\<newline>'' (drop k (tl formatted))) \<le> maxTokens \<or>
                k = length (tl formatted) - 1"
      by blast
    have step: "truncate_oldest tokenCounter maxTokens formatted =
                truncate_oldest tokenCounter maxTokens (tl formatted)"
      by (subst truncate_oldest_unfold) (use True in auto)
    have d: "drop k (tl formatted) = drop (Suc k) formatted"
      by (simp add: drop_Suc)
    have "Suc k < length formatted" using k by simp
    moreover have "truncate_oldest tokenCounter maxTokens formatted = drop (Suc k) formatted"
      using step eq d by simp
    moreover have "tokenCounter (join ''\<newline>'' (drop (Suc k) formatted)) \<le> maxTokens \<or>
                   Suc k = length formatted - 1"
      using fit d k by auto
    ultimately show ?thesis by blast
  next
    case False
    have stop: "truncate_oldest tokenCounter maxTokens formatted = formatted"
      by (subst truncate_oldest_unfold) (use False in auto)
    from False have "tokenCounter (join ''\<newline>'' formatted) \<le> maxTokens \<or> length formatted = 1"
      using "1.prems" by (cases formatted) auto
    then have "tokenCounter (join ''\<newline>'' (drop 0 formatted)) \<le> maxTokens \<or>
               0 = length formatted - 1"
      by auto
    moreover have "0 < length formatted" using "1.prems" by simp
    moreover have "truncate_oldest tokenCounter maxTokens formatted = drop 0 formatted"
      using stop by simp
    ultimately show ?thesis by blast
  qed
qed

lemma join_not_empty: "xs \<noteq> [] \<Longrightarrow> hd xs \<noteq> [] \<Longrightarrow> join sep xs \<noteq> []"
  by (induction sep xs rule: join.induct) auto

lemma format_message_not_empty: "format_message msg \<noteq> []"
  by (simp add: format_message_def)

text \<open>
  Claim C8. For every non-empty message list and every token counter, the history that
  \<open>buildPrompt\<close> of a \<open>PromptBuilder(512)\<close> puts in front of the generation cue is the
  formatted message list with some \<open>k\<close> messages dropped from the front, \<open>k\<close> smaller than
  the number of messages (so the most recent message is always there), and either its
  counted tokens are at most \<open>512 - 100\<close> or it is the single most recent message.
\<close>

theorem buildPrompt_history_truncation:
  assumes "messages \<noteq> []"
  shows "\<exists>k < length messages.
           formatConversationHistory messages (512 - 100) tokenCounter =
             join ''\<newline>'' (drop k (map format_message messages)) \<and>
           last (drop k (map format_message messages)) = format_message (last messages) \<and>
           (tokenCounter (join ''\<newline>'' (drop k (map format_message messages))) \<le> 412 \<or>
            drop k (map format_message messages) = [format_message (last messages)]) \<and>
           buildPrompt (PromptBuilder 512) messages newMessage tokenCounter =
             join ''\<newline>'' (drop k (map format_message messages)) @
             ''\<newline>User: '' @ newMessage @ ''\<newline>Assistant:''"
proof -
  let ?formatted = "map format_message messages"
  have ne: "?formatted \<noteq> []" using assms by simp
  from truncate_oldest_drops_front [OF ne, of tokenCounter 412]
  obtain k where k: "k < length ?formatted"
    and eq: "truncate_oldest tokenCounter 412 ?formatted = drop k ?formatted"
    and fit: "tokenCounter (join ''\<newline>'' (drop k ?formatted)) \<le> 412 \<or>
              k = length ?formatted - 1"
    by blast
  have hist: "formatConversationHistory messages (512 - 100) tokenCounter =
              join ''\<newline>'' (drop k ?formatted)"
    using assms eq by (simp add: formatConversationHistory_def)
  have dne: "drop k ?formatted \<noteq> []" using k by simp
  have lst: "last (drop k ?formatted) = format_message (last messages)"
    using k assms by (simp add: last_map)
  have single: "k = length ?formatted - 1 \<Longrightarrow>
                drop k ?formatted = [format_message (last messages)]"
  proof -
    assume kk: "k = length ?formatted - 1"
    then have "length (drop k ?formatted) = 1" using k by simp
    then obtain x where x: "drop k ?formatted = [x]"
      by (cases "drop k ?formatted") auto
    with lst show ?thesis by simp
  qed
  have hd_ne: "hd (drop k ?formatted) \<noteq> []"
    using k by (simp add: hd_drop_conv_nth format_message_not_empty)
  have "join ''\<newline>'' (drop k ?formatted) \<noteq> []"
    using dne hd_ne by (rule join_not_empty)
  then have prompt: "buildPrompt (PromptBuilder 512) messages newMessage tokenCounter =
      join ''\<newline>'' (drop k ?formatted) @ ''\<newline>User: '' @ newMessage @ ''\<newline>Assistant:''"
    using hist by (simp add: buildPrompt_def PromptBuilder_def createPrompt_def)
  from k have "k < length messages" by simp
  with hist lst fit single prompt show ?thesis by blast
qed

theorem buildPrompt_history_truncation_witness:
  "[\<lparr>role = ''user'', content = ''hello''\<rparr>, \<lparr>role = ''assistant'', content = ''hi''\<rparr>] \<noteq> [] \<and>
   (\<exists>k < length [\<lparr>role = ''user'', content = ''hello''\<rparr>, \<lparr>role = ''assistant'', content = ''hi''\<rparr>].
      formatConversationHistory
        [\<lparr>role = ''user'', content = ''hello''\<rparr>, \<lparr>role = ''assistant'', content = ''hi''\<rparr>]
        (512 - 100) (\<lambda>s. 300 * int (length s)) =
      join ''\<newline>'' (drop k (map format_message
        [\<lparr>role = ''user'', content = ''hello''\<rparr>, \<lparr>role = ''assistant'', content = ''hi''\<rparr>])) \<and>
      last (drop k (map format_message
        [\<lparr>role = ''user'', content = ''hello''\<rparr>, \<lparr>role = ''assistant'', content = ''hi''\<rparr>])) =
      format_message (last [\<lparr>role = ''user'', content = ''hello''\<rparr>, \<lparr>role = ''assistant'', content = ''hi''\<rparr>]) \<and>
      ((\<lambda>s. 300 * int (length s)) (join ''\<newline>'' (drop k (map format_message
        [\<lparr>role = ''user'', content = ''hello''\<rparr>, \<lparr>role = ''assistant'', content = ''hi''\<rparr>]))) \<le> 412 \<or>
       drop k (map format_message
        [\<lparr>role = ''user'', content = ''hello''\<rparr>, \<lparr>role = ''assistant'', content = ''hi''\<rparr>]) =
       [format_message (last [\<lparr>role = ''user'', content = ''hello''\<rparr>, \<lparr>role = ''assistant'', content = ''hi''\<rparr>])]) \<and>
      buildPrompt (PromptBuilder 512)
        [\<lparr>role = ''user'', content = ''hello''\<rparr>, \<lparr>role = ''assistant'', content = ''hi''\<rparr>]
        ''bye'' (\<lambda>s. 300 * int (length s)) =
      join ''\<newline>'' (drop k (map format_message
        [\<lparr>role = ''user'', content = ''hello''\<rparr>, \<lparr>role = ''assistant'', content = ''hi''\<rparr>])) @
      ''\<newline>User: '' @ ''bye'' @ ''\<newline>Assistant:'') \<and>
   formatConversationHistory
     [\<lparr>role = ''user'', content = ''hello''\<rparr>, \<lparr>role = ''assistant'', content = ''hi''\<rparr>]
     (512 - 100) (\<lambda>s. 300 * int (length s)) = ''Assistant: hi''"
proof -
  let ?ms = "[\<lparr>role = ''user'', content = ''hello''\<rparr>, \<lparr>role = ''assistant'', content = ''hi''\<rparr>]"
  have ne: "?ms \<noteq> []" by simp
  have val: "formatConversationHistory ?ms (512 - 100) (\<lambda>s. 300 * int (length s)) = ''Assistant: hi''"
    by (simp add: formatConversationHistory_def format_message_def truncate_oldest_unfold)
  from ne buildPrompt_history_truncation [OF ne, of "\<lambda>s. 300 * int (length s)" "''bye''"] val
  show ?thesis by blast
qed

section \<open>Properties of the vector store\<close>

lemma convert_embeddings_length:
  "convert_embeddings cs = Inr vs \<Longrightarrow> length vs = length cs"
  by (induction cs arbitrary: vs) (auto split: sum.splits)

lemma loadEmbeddings_Inr:
  assumes "loadEmbeddings this embeddingsData = Inr st"
  shows "vector_store.isLoaded st \<and> length (embeddings st) = length (vector_store.chunks st)"
  using assms
  by (auto simp: loadEmbeddings_def convert_embeddings_length split: option.splits sum.splits)

lemma similarity_of_same_length:
  "length e = length q \<Longrightarrow> similarity_of useCosineSim q e = Inr (sim useCosineSim q e)"
  by (simp add: similarity_of_def sim_def dotProduct_def cosineSimilarity_def)

lemma collect_similarities_zip:
  assumes "length cs = length es"
    and "\<forall>(c, e) \<in> set (zip cs es). \<not> filtered_out f c \<longrightarrow> length e = length q"
  shows "collect_similarities f useCosineSim q i cs es =
         Inr (map (\<lambda>(j, c, e). \<lparr>index = j, score = sim useCosineSim q e\<rparr>)
                (filter (\<lambda>(j, c, e). \<not> filtered_out f c)
                   (zip [i ..< i + length cs] (zip cs es))))"
  using assms
proof (induction cs es arbitrary: i rule: list_induct2)
  case Nil
  show ?case by simp
next
  case (Cons c cs e es)
  have up: "[i ..< i + length (c # cs)] = i # [Suc i ..< Suc i + length cs]"
    by (subst upt_rec) simp
  have rest: "\<forall>(c, e) \<in> set (zip cs es). \<not> filtered_out f c \<longrightarrow> length e = length q"
    using Cons.prems by auto
  note IH = Cons.IH [OF rest, of "Suc i"]
  show ?case
  proof (cases "filtered_out f c")
    case True
    then show ?thesis using IH by (simp only: up) simp
  next
    case False
    then have "length e = length q" using Cons.prems by auto
    then have "similarity_of useCosineSim q e = Inr (sim useCosineSim q e)"
      by (rule similarity_of_same_length)
    then show ?thesis using False IH by (simp only: up) simp
  qed
qed

lemma set_sort_insert: "set (sort_insert compareFn x ys) = insert x (set ys)"
  by (induction ys) auto

lemma set_array_sort: "set (array_sort compareFn xs) = set xs"
  by (induction xs) (auto simp: set_sort_insert)

lemma length_sort_insert: "length (sort_insert compareFn x ys) = Suc (length ys)"
  by (induction ys) auto

lemma length_array_sort: "length (array_sort compareFn xs) = length xs"
  by (induction xs) (auto simp: length_sort_insert)

lemma distinct_sort_insert:
  "distinct (map g (sort_insert compareFn x ys)) = distinct (map g (x # ys))"
  by (induction ys) (auto simp: set_sort_insert)

lemma distinct_array_sort:
  "distinct (map g (array_sort compareFn xs)) = distinct (map g xs)"
  by (induction xs) (auto simp: distinct_sort_insert set_array_sort)

lemma sort_insert_precedes:
  assumes "sorted_wrt precedes ys"
    and "\<forall>y \<in> set ys. index x < index y"
  shows "sorted_wrt precedes (sort_insert (\<lambda>a b. score b - score a) x ys)"
  using assms
proof (induction ys)
  case Nil
  show ?case by simp
next
  case (Cons y ys)
  show ?case
  proof (cases "score y - score x \<le> 0")
    case True
    have "precedes x z" if "z \<in> set (y # ys)" for z
    proof -
      have "score z \<le> score y"
        using that Cons.prems(1) by (auto simp: precedes_def)
      moreover have "index x < index z" using that Cons.prems(2) by auto
      ultimately show ?thesis using True by (auto simp: precedes_def)
    qed
    then show ?thesis using True Cons.prems(1) by simp
  next
    case False
    have yx: "precedes y x" using False by (simp add: precedes_def)
    have "sorted_wrt precedes (sort_insert (\<lambda>a b. score b - score a) x ys)"
      using Cons by simp
    then show ?thesis using False yx Cons.prems(1) by (auto simp: set_sort_insert)
  qed
qed

lemma array_sort_precedes:
  "sorted_wrt (\<lambda>a b. index a < index b) xs \<Longrightarrow>
   sorted_wrt precedes (array_sort (\<lambda>a b. score b - score a) xs)"
proof (induction xs)
  case Nil
  show ?case by simp
next
  case (Cons x xs)
  have "sorted_wrt precedes (array_sort (\<lambda>a b. score b - score a) xs)"
    using Cons by simp
  moreover have "\<forall>y \<in> set (array_sort (\<lambda>a b. score b - score a) xs). index x < index y"
    using Cons.prems by (simp add: set_array_sort)
  ultimately show ?case by (simp add: sort_insert_precedes)
qed

lemma zip_with_indices:
  "length cs = n \<Longrightarrow> length es = n \<Longrightarrow>
   zip [0 ..< n] (zip cs es) = map (\<lambda>j. (j, cs ! j, es ! j)) [0 ..< n]"
  by (rule nth_equalityI) auto

lemma collect_similarities_scanned:
  assumes len: "length es = length cs"
    and dims: "\<forall>i < length cs. \<not> filtered_out f (cs ! i) \<longrightarrow> length (es ! i) = length q"
  shows "collect_similarities f useCosineSim q 0 cs es = Inr (scanned f useCosineSim q cs es)"
proof -
  have "\<forall>(c, e) \<in> set (zip cs es). \<not> filtered_out f c \<longrightarrow> length e = length q"
    using dims len by (auto simp: in_set_zip)
  then have "collect_similarities f useCosineSim q 0 cs es =
         Inr (map (\<lambda>(j, c, e). \<lparr>index = j, score = sim useCosineSim q e\<rparr>)
                (filter (\<lambda>(j, c, e). \<not> filtered_out f c)
                   (zip [0 ..< 0 + length cs] (zip cs es))))"
    using len by (intro collect_similarities_zip) simp_all
  also have "zip [0 ..< 0 + length cs] (zip cs es) = map (\<lambda>j. (j, cs ! j, es ! j)) [0 ..< length cs]"
    using len by (simp add: zip_with_indices)
  finally show ?thesis
    by (simp add: scanned_def filter_map comp_def)
qed

lemma scanned_index_sorted:
  "sorted_wrt (\<lambda>a b. index a < index b) (scanned f useCosineSim q cs es)"
  by (simp add: scanned_def sorted_wrt_map sorted_wrt_filter)

lemma scanned_indices:
  "map index (scanned f useCosineSim q cs es) =
   filter (\<lambda>j. \<not> filtered_out f (cs ! j)) [0 ..< length cs]"
  by (simp add: scanned_def comp_def)

lemma scanned_score:
  "r \<in> set (scanned f useCosineSim q cs es) \<Longrightarrow> score r = sim useCosineSim q (es ! index r)"
  by (auto simp: scanned_def)

declare string_of_nat.simps [simp del]

lemma slice_from_start_subset: "set (slice_from_start xs n) \<subseteq> set xs"
  by (simp add: slice_from_start_def set_take_subset)

lemma slice_from_start_map: "slice_from_start (map g xs) n = map g (slice_from_start xs n)"
  by (simp add: slice_from_start_def take_map)

lemma search_scanned:
  fixes topK :: int
  assumes loaded: "vector_store.isLoaded this"
    and len: "length (embeddings this) = length (vector_store.chunks this)"
    and dim: "int (length q) = embeddingDim this"
    and dims: "\<forall>i < length (vector_store.chunks this).
                 \<not> filtered_out f (vector_store.chunks this ! i) \<longrightarrow>
                 length (embeddings this ! i) = length q"
  shows "search this q topK f useCosineSim =
         Inr (map (\<lambda>i. \<lparr>result_chunk = vector_store.chunks this ! i,
                         similarity_score = sim useCosineSim q (embeddings this ! i)\<rparr>)
                (slice_from_start
                   (map index (array_sort (\<lambda>a b. score b - score a)
                      (scanned f useCosineSim q (vector_store.chunks this) (embeddings this))))
                   topK))"
proof -
  let ?sc = "scanned f useCosineSim q (vector_store.chunks this) (embeddings this)"
  let ?sorted = "array_sort (\<lambda>a b. score b - score a) ?sc"
  let ?top = "slice_from_start ?sorted topK"
  have scan: "collect_similarities f useCosineSim q 0 (vector_store.chunks this) (embeddings this) = Inr ?sc"
    using len dims by (rule collect_similarities_scanned)
  have "set ?top \<subseteq> set ?sorted"
    by (rule slice_from_start_subset)
  then have sub: "set ?top \<subseteq> set ?sc"
    by (simp only: set_array_sort)
  have same: "\<lparr>result_chunk = vector_store.chunks this ! index r, similarity_score = score r\<rparr> =
              \<lparr>result_chunk = vector_store.chunks this ! index r,
               similarity_score = sim useCosineSim q (embeddings this ! index r)\<rparr>"
    if "r \<in> set ?top" for r
  proof -
    from that sub have "r \<in> set ?sc" by blast
    then have "score r = sim useCosineSim q (embeddings this ! index r)"
      by (rule scanned_score)
    then show ?thesis by simp
  qed
  have unfold: "search this q topK f useCosineSim =
        Inr (map (\<lambda>result. \<lparr>result_chunk = vector_store.chunks this ! index result,
                              similarity_score = score result\<rparr>) ?top)"
    unfolding search_def using loaded dim scan by simp
  have "map (\<lambda>result. \<lparr>result_chunk = vector_store.chunks this ! index result,
                              similarity_score = score result\<rparr>) ?top =
        map (\<lambda>r. \<lparr>result_chunk = vector_store.chunks this ! index r,
                    similarity_score = sim useCosineSim q (embeddings this ! index r)\<rparr>) ?top"
    by (rule map_cong [OF refl]) (rule same)
  also have "\<dots> = map (\<lambda>i. \<lparr>result_chunk = vector_store.chunks this ! i,
                         similarity_score = sim useCosineSim q (embeddings this ! i)\<rparr>)
                (slice_from_start (map index ?sorted) topK)"
    by (simp only: slice_from_start_map map_map comp_def)
  finally show ?thesis using unfold by simp
qed

lemma ranking_distinct: "distinct (ranking this q f useCosineSim)"
  by (simp add: ranking_def distinct_array_sort scanned_indices)

lemma ranking_set:
  "set (ranking this q f useCosineSim) =
   {i. i < length (vector_store.chunks this) \<and> \<not> filtered_out f (vector_store.chunks this ! i)}"
proof -
  have "set (ranking this q f useCosineSim) =
        set (map index (scanned f useCosineSim q (vector_store.chunks this) (embeddings this)))"
    by (simp add: ranking_def set_array_sort)
  then show ?thesis by (auto simp: scanned_indices)
qed

lemma ranking_sorted:
  "sorted_wrt (ranks_before (\<lambda>i. sim useCosineSim q (embeddings this ! i)))
     (ranking this q f useCosineSim)"
proof -
  let ?sc = "scanned f useCosineSim q (vector_store.chunks this) (embeddings this)"
  let ?sorted = "array_sort (\<lambda>a b. score b - score a) ?sc"
  have "sorted_wrt precedes ?sorted"
    by (rule array_sort_precedes) (rule scanned_index_sorted)
  moreover have "precedes a b \<Longrightarrow>
      ranks_before (\<lambda>i. sim useCosineSim q (embeddings this ! i)) (index a) (index b)"
    if "a \<in> set ?sorted" "b \<in> set ?sorted" for a b
    using that scanned_score [of a f useCosineSim q "vector_store.chunks this" "embeddings this"]
      scanned_score [of b f useCosineSim q "vector_store.chunks this" "embeddings this"]
    by (simp add: set_array_sort precedes_def ranks_before_def)
  ultimately have "sorted_wrt (\<lambda>a b. ranks_before (\<lambda>i. sim useCosineSim q (embeddings this ! i))
                                 (index a) (index b)) ?sorted"
    by (rule sorted_wrt_mono_rel [rotated]) blast
  then show ?thesis by (simp add: ranking_def sorted_wrt_map)
qed

lemma example_store_loaded:
  "loadEmbeddings VectorStore (Some example_data) = Inr example_store"
  by (simp add: loadEmbeddings_def example_data_def example_store_def VectorStore_def
      toFloat32Array_def example_chunk_def)

lemma example_search_0:
  "search example_store [1, 0, 0] 0 no_filters False = Inr []"
  by (simp add: search_def example_store_def slice_from_start_def similarity_of_def
      dotProduct_def dot_def filtered_out_def truthy_def no_filters_def)

lemma example_search_2:
  "search example_store [1, 0, 0] 2 no_filters False =
   Inr [\<lparr>result_chunk = example_chunk ''A_chunk_0'' ''A'' (ArrayEmbedding [1, 0, 0]), similarity_score = 1\<rparr>,
        \<lparr>result_chunk = example_chunk ''B_chunk_0'' ''B'' (ArrayEmbedding [0, 1, 0]), similarity_score = 0\<rparr>]"
  by (simp add: search_def example_store_def slice_from_start_def similarity_of_def
      dotProduct_def dot_def filtered_out_def truthy_def no_filters_def)

lemma example_search_neg:
  "search example_store [1, 0, 0] (- 1) no_filters False =
   Inr [\<lparr>result_chunk = example_chunk ''A_chunk_0'' ''A'' (ArrayEmbedding [1, 0, 0]), similarity_score = 1\<rparr>,
        \<lparr>result_chunk = example_chunk ''B_chunk_0'' ''B'' (ArrayEmbedding [0, 1, 0]), similarity_score = 0\<rparr>]"
  by (simp add: search_def example_store_def slice_from_start_def similarity_of_def
      dotProduct_def dot_def filtered_out_def truthy_def no_filters_def)

lemma convert_embeddings_Inr:
  "OtherEmbedding \<notin> embedding ` set cs \<Longrightarrow> convert_embeddings cs = Inr (map vector_of cs)"
proof (induction cs)
  case Nil
  show ?case by simp
next
  case (Cons c cs)
  then have "embedding c \<noteq> OtherEmbedding" by auto
  then have "toFloat32Array c = Inr (vector_of c)"
    by (cases "embedding c") (simp_all add: toFloat32Array_def vector_of_def)
  with Cons show ?case by simp
qed

lemma convert_embeddings_Inl:
  "OtherEmbedding \<in> embedding ` set cs \<Longrightarrow> \<exists>msg. convert_embeddings cs = Inl (Error msg)"
proof (induction cs)
  case Nil
  then show ?case by simp
next
  case (Cons c cs)
  show ?case
  proof (cases "embedding c")
    case OtherEmbedding
    then show ?thesis by (simp add: toFloat32Array_def)
  next
    case (ArrayEmbedding v)
    with Cons.prems have "OtherEmbedding \<in> embedding ` set cs" by auto
    from Cons.IH [OF this] ArrayEmbedding show ?thesis
      by (auto simp: toFloat32Array_def)
  next
    case (Float32Embedding v)
    with Cons.prems have "OtherEmbedding \<in> embedding ` set cs" by auto
    from Cons.IH [OF this] Float32Embedding show ?thesis
      by (auto simp: toFloat32Array_def)
  qed
qed

text \<open>
  Claim C2 says that the loader validates the embedding dimension, the length of every
  vector and the non-empty \<open>chunk_id\<close>, \<open>document_id\<close> and \<open>text\<close> of every chunk, and
  fails on any violation. The code checks none of these. As amended: loading succeeds
  exactly when the data object and its \<open>chunks\<close> are present and every chunk's
  \<open>embedding\<close> is an array or a \<open>Float32Array\<close>; it then stores the chunks and their
  vectors as they are, with \<open>embedding_dim\<close> defaulting to 768 when it is missing or zero;
  every failure is a plain \<open>Error\<close>.
\<close>

theorem loadEmbeddings_checks_format_only:
  "((\<exists>st. loadEmbeddings this embeddingsData = Inr st) \<longleftrightarrow>
      (\<exists>data cs. embeddingsData = Some data \<and> embeddings_data.chunks data = Some cs \<and>
         OtherEmbedding \<notin> embedding ` set cs)) \<and>
   (\<forall>data cs. embeddingsData = Some data \<and> embeddings_data.chunks data = Some cs \<and>
         OtherEmbedding \<notin> embedding ` set cs \<longrightarrow>
      loadEmbeddings this embeddingsData =
        Inr (this\<lparr>vector_store.chunks := cs,
                  embeddingDim := (case embedding_dim data of
                                     None \<Rightarrow> 768
                                   | Some d \<Rightarrow> if d = 0 then 768 else d),
                  embeddings := map vector_of cs,
                  vector_store.isLoaded := True\<rparr>)) \<and>
   (\<forall>err. loadEmbeddings this embeddingsData = Inl err \<longrightarrow> (\<exists>msg. err = Error msg))"
proof (cases embeddingsData)
  case None
  then show ?thesis by (simp add: loadEmbeddings_def)
next
  case (Some data)
  note data = this
  show ?thesis
  proof (cases "embeddings_data.chunks data")
    case None
    with data show ?thesis by (simp add: loadEmbeddings_def)
  next
    case (Some cs)
    show ?thesis
    proof (cases "OtherEmbedding \<in> embedding ` set cs")
      case True
      from convert_embeddings_Inl [OF True] obtain msg
        where "convert_embeddings cs = Inl (Error msg)" by blast
      with data Some True show ?thesis by (simp add: loadEmbeddings_def)
    next
      case False
      from convert_embeddings_Inr [OF False] data Some False show ?thesis
        by (simp add: loadEmbeddings_def)
    qed
  qed
qed

text \<open>The amended claim at a file with no \<open>embedding_dim\<close> whose only chunk has empty
  identifiers, an empty text and a vector of length 2: the load succeeds.\<close>

theorem loadEmbeddings_checks_format_only_witness:
  "\<exists>st. loadEmbeddings VectorStore
      (Some \<lparr>embeddings_data.chunks = Some [\<lparr>chunk_id = [], document_id = [], chunk_text = [], tokens = 0, chunk_index = 0,
        category = ''safety'', language = ''en'',
        metadata = \<lparr>document_title = [], document_filename = [], source_url = []\<rparr>,
        embedding = ArrayEmbedding [1, 2]\<rparr>], embedding_dim = None\<rparr>) = Inr st"
proof -
  have "OtherEmbedding \<notin> embedding ` set [\<lparr>chunk_id = [], document_id = [], chunk_text = [], tokens = 0, chunk_index = 0,
        category = ''safety'', language = ''en'',
        metadata = \<lparr>document_title = [], document_filename = [], source_url = []\<rparr>,
        embedding = ArrayEmbedding [1, 2]\<rparr>]"
    by simp
  then have "\<exists>data cs.
      Some \<lparr>embeddings_data.chunks = Some [\<lparr>chunk_id = [], document_id = [], chunk_text = [], tokens = 0, chunk_index = 0,
        category = ''safety'', language = ''en'',
        metadata = \<lparr>document_title = [], document_filename = [], source_url = []\<rparr>,
        embedding = ArrayEmbedding [1, 2]\<rparr>], embedding_dim = None\<rparr> = Some data \<and>
      embeddings_data.chunks data = Some cs \<and> OtherEmbedding \<notin> embedding ` set cs"
    by simp
  with loadEmbeddings_checks_format_only
    [of VectorStore "Some \<lparr>embeddings_data.chunks = Some [\<lparr>chunk_id = [], document_id = [], chunk_text = [], tokens = 0, chunk_index = 0,
        category = ''safety'', language = ''en'',
        metadata = \<lparr>document_title = [], document_filename = [], source_url = []\<rparr>,
        embedding = ArrayEmbedding [1, 2]\<rparr>], embedding_dim = None\<rparr>"]
  show ?thesis by blast
qed

text \<open>Counterexample to claim C2 as stated: the same file violates all three validations
  of the claim (no dimension, a vector of length 2 in an index of dimension 768, empty
  \<open>chunk_id\<close>, \<open>document_id\<close> and \<open>text\<close>) and is loaded.\<close>

theorem loadEmbeddings_accepts_invalid_index:
  "loadEmbeddings VectorStore
      (Some \<lparr>embeddings_data.chunks = Some [\<lparr>chunk_id = [], document_id = [], chunk_text = [], tokens = 0, chunk_index = 0,
        category = ''safety'', language = ''en'',
        metadata = \<lparr>document_title = [], document_filename = [], source_url = []\<rparr>,
        embedding = ArrayEmbedding [1, 2]\<rparr>], embedding_dim = None\<rparr>) =
   Inr \<lparr>vector_store.chunks = [\<lparr>chunk_id = [], document_id = [], chunk_text = [], tokens = 0, chunk_index = 0,
        category = ''safety'', language = ''en'',
        metadata = \<lparr>document_title = [], document_filename = [], source_url = []\<rparr>,
        embedding = ArrayEmbedding [1, 2]\<rparr>], embeddings = [[1, 2]],
        vector_store.isLoaded = True, embeddingDim = 768\<rparr>"
  by (simp add: loadEmbeddings_def VectorStore_def toFloat32Array_def)

lemma loadEmbeddings_loaded:
  assumes "loadEmbeddings store0 embeddingsData = Inr this"
  shows "vector_store.isLoaded this"
    and "length (embeddings this) = length (vector_store.chunks this)"
  using loadEmbeddings_Inr [OF assms] by simp_all

text \<open>
  Claim C5 says that for every loaded store, query of the index dimension and \<open>topK \<ge> 1\<close>
  the search returns the \<open>topK\<close> best candidates by decreasing score, ties in storage
  order. The loader accepts vectors of any length and the similarity functions throw on a
  length mismatch, so the claim needs one more hypothesis. As amended: if moreover every
  candidate chunk's stored vector has the query's length, the result is the first \<open>topK\<close>
  entries of the one list \<open>R\<close> of all candidate indices that is ordered by higher score
  first and, among equal scores, lower index first; so every returned candidate ranks
  before every candidate left out.
\<close>

theorem search_top_k:
  fixes topK :: int
  assumes loaded: "loadEmbeddings store0 embeddingsData = Inr this"
    and dim: "int (length q) = embeddingDim this"
    and dims: "\<forall>i < length (vector_store.chunks this).
                 \<not> filtered_out f (vector_store.chunks this ! i) \<longrightarrow>
                 length (embeddings this ! i) = length q"
    and k: "1 \<le> topK"
  shows "\<exists>R. search this q topK f useCosineSim =
               Inr (map (\<lambda>i. \<lparr>result_chunk = vector_store.chunks this ! i,
                               similarity_score = sim useCosineSim q (embeddings this ! i)\<rparr>)
                      (take (nat topK) R)) \<and>
             distinct R \<and>
             set R = {i. i < length (vector_store.chunks this) \<and>
                         \<not> filtered_out f (vector_store.chunks this ! i)} \<and>
             sorted_wrt (ranks_before (\<lambda>i. sim useCosineSim q (embeddings this ! i))) R \<and>
             (\<forall>j \<in> set (take (nat topK) R). \<forall>i \<in> set (drop (nat topK) R).
                ranks_before (\<lambda>i. sim useCosineSim q (embeddings this ! i)) j i)"
proof -
  let ?R = "ranking this q f useCosineSim"
  let ?before = "ranks_before (\<lambda>i. sim useCosineSim q (embeddings this ! i))"
  have "search this q topK f useCosineSim =
        Inr (map (\<lambda>i. \<lparr>result_chunk = vector_store.chunks this ! i,
                        similarity_score = sim useCosineSim q (embeddings this ! i)\<rparr>)
               (slice_from_start ?R topK))"
    unfolding ranking_def
    using loadEmbeddings_loaded [OF loaded] dim dims by (rule search_scanned)
  moreover have "slice_from_start ?R topK = take (nat topK) ?R"
    using k by (simp add: slice_from_start_def)
  moreover have srt: "sorted_wrt ?before ?R" by (rule ranking_sorted)
  moreover have "\<forall>j \<in> set (take (nat topK) ?R). \<forall>i \<in> set (drop (nat topK) ?R). ?before j i"
  proof -
    have "sorted_wrt ?before (take (nat topK) ?R @ drop (nat topK) ?R)"
      using srt by simp
    then show ?thesis unfolding sorted_wrt_append by blast
  qed
  ultimately show ?thesis
    using ranking_distinct [of this q f useCosineSim] ranking_set [of this q f useCosineSim]
    by (intro exI [of _ ?R]) simp
qed

text \<open>
  Claim C3 says that \<open>search\<close> with \<open>topK \<le> 0\<close> fails with an InvalidArgument error. The
  code has no check of \<open>topK\<close>: it reaches \<open>similarities.slice(0, topK)\<close>. As amended: for
  a loaded store, a query of the index dimension and candidates whose vectors have the
  query's length, the search with \<open>topK \<le> 0\<close> returns a list and no error: the empty
  list for \<open>topK = 0\<close>, and for a negative \<open>topK\<close> the full ranking \<open>R\<close> without its last
  \<open>- topK\<close> entries.
\<close>

theorem search_nonpositive_topK:
  fixes topK :: int
  assumes loaded: "loadEmbeddings store0 embeddingsData = Inr this"
    and dim: "int (length q) = embeddingDim this"
    and dims: "\<forall>i < length (vector_store.chunks this).
                 \<not> filtered_out f (vector_store.chunks this ! i) \<longrightarrow>
                 length (embeddings this ! i) = length q"
    and k: "topK \<le> 0"
  shows "\<exists>R. search this q (int (length (vector_store.chunks this))) f useCosineSim =
               Inr (map (\<lambda>i. \<lparr>result_chunk = vector_store.chunks this ! i,
                               similarity_score = sim useCosineSim q (embeddings this ! i)\<rparr>) R) \<and>
             search this q topK f useCosineSim =
               Inr (if topK = 0 then []
                    else map (\<lambda>i. \<lparr>result_chunk = vector_store.chunks this ! i,
                                    similarity_score = sim useCosineSim q (embeddings this ! i)\<rparr>)
                           (take (length R - nat (- topK)) R))"
proof -
  let ?R = "ranking this q f useCosineSim"
  have all: "search this q n f useCosineSim =
        Inr (map (\<lambda>i. \<lparr>result_chunk = vector_store.chunks this ! i,
                        similarity_score = sim useCosineSim q (embeddings this ! i)\<rparr>)
               (slice_from_start ?R n))" for n
    unfolding ranking_def
    using loadEmbeddings_loaded [OF loaded] dim dims by (rule search_scanned)
  have "length ?R \<le> length (vector_store.chunks this)"
  proof -
    have "card (set ?R) \<le> card {i. i < length (vector_store.chunks this)}"
      unfolding ranking_set by (rule card_mono) auto
    then show ?thesis using ranking_distinct [of this q f useCosineSim]
      by (simp add: distinct_card)
  qed
  then have full: "slice_from_start ?R (int (length (vector_store.chunks this))) = ?R"
    by (simp add: slice_from_start_def)
  have cut: "slice_from_start ?R topK =
             (if topK = 0 then [] else take (length ?R - nat (- topK)) ?R)"
  proof (cases "topK = 0")
    case True
    then show ?thesis by (simp add: slice_from_start_def)
  next
    case False
    with k have neg: "topK < 0" by simp
    then have "nat (int (length ?R) + topK) = length ?R - nat (- topK)" by linarith
    with neg False show ?thesis by (simp add: slice_from_start_def)
  qed
  have a: "search this q (int (length (vector_store.chunks this))) f useCosineSim =
        Inr (map (\<lambda>i. \<lparr>result_chunk = vector_store.chunks this ! i,
                        similarity_score = sim useCosineSim q (embeddings this ! i)\<rparr>) ?R)"
    using all [of "int (length (vector_store.chunks this))"] full by simp
  have b: "search this q topK f useCosineSim =
        Inr (if topK = 0 then []
             else map (\<lambda>i. \<lparr>result_chunk = vector_store.chunks this ! i,
                             similarity_score = sim useCosineSim q (embeddings this ! i)\<rparr>)
                    (take (length ?R - nat (- topK)) ?R))"
    using all [of topK] cut by simp
  from a b show ?thesis by blast
qed

lemma example_store_dims:
  "\<forall>i < length (vector_store.chunks example_store).
     \<not> filtered_out no_filters (vector_store.chunks example_store ! i) \<longrightarrow>
     length (embeddings example_store ! i) = length [1, 0, 0 :: real]"
  by (simp add: example_store_def All_less_Suc)

theorem search_top_k_witness:
  "(\<exists>R. search example_store [1, 0, 0] 2 no_filters False =
          Inr (map (\<lambda>i. \<lparr>result_chunk = vector_store.chunks example_store ! i,
                          similarity_score = sim False [1, 0, 0] (embeddings example_store ! i)\<rparr>)
                 (take (nat 2) R)) \<and>
        distinct R \<and>
        set R = {i. i < length (vector_store.chunks example_store) \<and>
                    \<not> filtered_out no_filters (vector_store.chunks example_store ! i)} \<and>
        sorted_wrt (ranks_before (\<lambda>i. sim False [1, 0, 0] (embeddings example_store ! i))) R \<and>
        (\<forall>j \<in> set (take (nat 2) R). \<forall>i \<in> set (drop (nat 2) R).
           ranks_before (\<lambda>i. sim False [1, 0, 0] (embeddings example_store ! i)) j i)) \<and>
   search example_store [1, 0, 0] 2 no_filters False =
     Inr [\<lparr>result_chunk = example_chunk ''A_chunk_0'' ''A'' (ArrayEmbedding [1, 0, 0]),
           similarity_score = 1\<rparr>,
          \<lparr>result_chunk = example_chunk ''B_chunk_0'' ''B'' (ArrayEmbedding [0, 1, 0]),
           similarity_score = 0\<rparr>]"
proof -
  have dim: "int (length [1, 0, 0 :: real]) = embeddingDim example_store"
    by (simp add: example_store_def)
  have k: "(1 :: int) \<le> 2" by simp
  from search_top_k [OF example_store_loaded dim example_store_dims k, of False]
    example_search_2
  show ?thesis by blast
qed

text \<open>Counterexample to claim C5 as stated: an index of dimension 2 whose only chunk has a
  vector of length 1 is loaded, and the search with a query of length 2 and \<open>topK = 1\<close>
  throws instead of returning the best chunk.\<close>

theorem search_fails_on_short_vector:
  "loadEmbeddings VectorStore
     (Some \<lparr>embeddings_data.chunks = Some [example_chunk ''A_chunk_0'' ''A'' (ArrayEmbedding [1])],
            embedding_dim = Some 2\<rparr>) =
   Inr \<lparr>vector_store.chunks = [example_chunk ''A_chunk_0'' ''A'' (ArrayEmbedding [1])],
        embeddings = [[1]], vector_store.isLoaded = True, embeddingDim = 2\<rparr> \<and>
   search \<lparr>vector_store.chunks = [example_chunk ''A_chunk_0'' ''A'' (ArrayEmbedding [1])],
           embeddings = [[1]], vector_store.isLoaded = True, embeddingDim = 2\<rparr>
     [1, 0] 1 no_filters False =
   Inl (Error ''Vectors must have same length'')"
  by (simp add: loadEmbeddings_def VectorStore_def toFloat32Array_def example_chunk_def
      search_def similarity_of_def dotProduct_def filtered_out_def truthy_def no_filters_def)

theorem search_nonpositive_topK_witness:
  "(\<exists>R. search example_store [1, 0, 0] (int (length (vector_store.chunks example_store)))
            no_filters False =
          Inr (map (\<lambda>i. \<lparr>result_chunk = vector_store.chunks example_store ! i,
                          similarity_score = sim False [1, 0, 0] (embeddings example_store ! i)\<rparr>) R) \<and>
        search example_store [1, 0, 0] (- 1) no_filters False =
          Inr (if (- 1 :: int) = 0 then []
               else map (\<lambda>i. \<lparr>result_chunk = vector_store.chunks example_store ! i,
                               similarity_score = sim False [1, 0, 0] (embeddings example_store ! i)\<rparr>)
                      (take (length R - nat (- (- 1))) R)))"
proof -
  have dim: "int (length [1, 0, 0 :: real]) = embeddingDim example_store"
    by (simp add: example_store_def)
  have k: "(- 1 :: int) \<le> 0" by simp
  from search_nonpositive_topK [OF example_store_loaded dim example_store_dims k, of False]
  show ?thesis .
qed

text \<open>Counterexample to claim C3 as stated: on the loaded example index, with a query of
  the index dimension, \<open>topK = 0\<close> returns the empty list and \<open>topK = -1\<close> returns the
  ranking without its last entry; neither fails.\<close>

theorem search_topK_zero_returns_list:
  "loadEmbeddings VectorStore (Some example_data) = Inr example_store \<and>
   int (length [1, 0, 0 :: real]) = embeddingDim example_store \<and>
   search example_store [1, 0, 0] 0 no_filters False = Inr [] \<and>
   search example_store [1, 0, 0] (- 1) no_filters False =
     Inr [\<lparr>result_chunk = example_chunk ''A_chunk_0'' ''A'' (ArrayEmbedding [1, 0, 0]),
           similarity_score = 1\<rparr>,
          \<lparr>result_chunk = example_chunk ''B_chunk_0'' ''B'' (ArrayEmbedding [0, 1, 0]),
           similarity_score = 0\<rparr>]"
  using example_store_loaded example_search_0 example_search_neg
  by (simp add: example_store_def)

section \<open>Properties of the query router\<close>

text \<open>
  Claim C6. For a router with the default thresholds (0.6 and 0.4), a non-empty query
  string and no forced mode, when the embedding succeeds and the search succeeds with a
  first result of score \<open>s\<close>: if \<open>0.4 \<le> s < 0.6\<close> the decision is mode \<open>general\<close> with
  confidence \<open>1 - s\<close> and the retrieved chunks attached, and if \<open>s \<ge> 0.6\<close> it is mode
  \<open>rag\<close> with confidence \<open>s\<close>.
\<close>

theorem routeQuery_thresholds:
  assumes "q \<noteq> []"
    and "forceMode options = None"
    and "embedText em q = Inr v"
    and "search vs v (route_options.topK options) no_filters False = Inr (best # others)"
  shows "(0.4 \<le> similarity_score best \<and> similarity_score best < 0.6 \<longrightarrow>
            fst (routeQuery (QueryRouter em vs) (JSString q) options) =
              Inr \<lparr>routing_decision.mode = ''general'', confidence = 1 - similarity_score best,
                   reason = LowSimilarity (similarity_score best),
                   relevantChunks = best # others, error_message = None\<rparr>) \<and>
         (0.6 \<le> similarity_score best \<longrightarrow>
            fst (routeQuery (QueryRouter em vs) (JSString q) options) =
              Inr \<lparr>routing_decision.mode = ''rag'', confidence = similarity_score best,
                   reason = HighSimilarity (similarity_score best),
                   relevantChunks = best # others, error_message = None\<rparr>)"
  using assms by (simp add: routeQuery_def QueryRouter_def decide_def Let_def)

text \<open>
  Claim C9. For every input that is the empty string or not a string, \<open>routeQuery\<close> throws
  (the promise is rejected) whatever the options are, and no embedding or search call has
  been made; the result is not a routing decision, so the downgrade to \<open>general\<close> of the
  \<open>catch\<close> block does not apply.
\<close>

theorem routeQuery_rejects_invalid_query:
  assumes "userQuery = JSString [] \<or> (\<forall>q. userQuery \<noteq> JSString q)"
  shows "routeQuery this userQuery options =
           (Inl (Error ''User query must be a non-empty string''), [])"
  using assms by (cases userQuery) (auto simp: routeQuery_def)

lemma example_search_low:
  "search example_store [0.55, 0, 0] 1 no_filters False =
   Inr [\<lparr>result_chunk = example_chunk ''A_chunk_0'' ''A'' (ArrayEmbedding [1, 0, 0]),
         similarity_score = 0.55\<rparr>]"
  by (simp add: search_def example_store_def slice_from_start_def similarity_of_def
      dotProduct_def dot_def filtered_out_def truthy_def no_filters_def)

lemma example_search_high:
  "search example_store [1, 0, 0] 1 no_filters False =
   Inr [\<lparr>result_chunk = example_chunk ''A_chunk_0'' ''A'' (ArrayEmbedding [1, 0, 0]),
         similarity_score = 1\<rparr>]"
  by (simp add: search_def example_store_def slice_from_start_def similarity_of_def
      dotProduct_def dot_def filtered_out_def truthy_def no_filters_def)

theorem routeQuery_thresholds_witness:
  "fst (routeQuery
          (QueryRouter \<lparr>embedding_manager.isLoaded = True, pipeline = Some (\<lambda>t. Inr [0.55, 0, 0])\<rparr> example_store)
          (JSString ''fire drill'') default_route_options) =
     Inr \<lparr>routing_decision.mode = ''general'', confidence = 0.45, reason = LowSimilarity 0.55,
          relevantChunks =
            [\<lparr>result_chunk = example_chunk ''A_chunk_0'' ''A'' (ArrayEmbedding [1, 0, 0]),
              similarity_score = 0.55\<rparr>],
          error_message = None\<rparr> \<and>
   fst (routeQuery
          (QueryRouter \<lparr>embedding_manager.isLoaded = True, pipeline = Some (\<lambda>t. Inr [1, 0, 0])\<rparr> example_store)
          (JSString ''fire drill'') default_route_options) =
     Inr \<lparr>routing_decision.mode = ''rag'', confidence = 1, reason = HighSimilarity 1,
          relevantChunks =
            [\<lparr>result_chunk = example_chunk ''A_chunk_0'' ''A'' (ArrayEmbedding [1, 0, 0]),
              similarity_score = 1\<rparr>],
          error_message = None\<rparr>"
proof -
  have q: "''fire drill'' \<noteq> []" by simp
  have f: "forceMode default_route_options = None"
    by (simp add: default_route_options_def)
  have k: "route_options.topK default_route_options = 1"
    by (simp add: default_route_options_def)
  have e1: "embedText \<lparr>embedding_manager.isLoaded = True, pipeline = Some (\<lambda>t. Inr [0.55, 0, 0])\<rparr> ''fire drill'' =
            Inr [0.55, 0, 0]"
    by (simp add: embedText_def)
  have e2: "embedText \<lparr>embedding_manager.isLoaded = True, pipeline = Some (\<lambda>t. Inr [1, 0, 0])\<rparr> ''fire drill'' =
            Inr [1, 0, 0]"
    by (simp add: embedText_def)
  have s1: "search example_store [0.55, 0, 0] (route_options.topK default_route_options) no_filters False =
            Inr (\<lparr>result_chunk = example_chunk ''A_chunk_0'' ''A'' (ArrayEmbedding [1, 0, 0]),
                  similarity_score = 0.55\<rparr> # [])"
    using example_search_low k by simp
  have s2: "search example_store [1, 0, 0] (route_options.topK default_route_options) no_filters False =
            Inr (\<lparr>result_chunk = example_chunk ''A_chunk_0'' ''A'' (ArrayEmbedding [1, 0, 0]),
                  similarity_score = 1\<rparr> # [])"
    using example_search_high k by simp
  from routeQuery_thresholds [OF q f e1 s1] routeQuery_thresholds [OF q f e2 s2]
  show ?thesis by simp
qed

theorem routeQuery_rejects_invalid_query_witness:
  "routeQuery
     (QueryRouter \<lparr>embedding_manager.isLoaded = True, pipeline = Some (\<lambda>t. Inr [1, 0, 0])\<rparr> example_store)
     (JSString []) \<lparr>forceMode = Some ''general'', topK = 1\<rparr> =
     (Inl (Error ''User query must be a non-empty string''), []) \<and>
   routeQuery
     (QueryRouter \<lparr>embedding_manager.isLoaded = True, pipeline = Some (\<lambda>t. Inr [1, 0, 0])\<rparr> example_store)
     (JSNumber 42) default_route_options =
     (Inl (Error ''User query must be a non-empty string''), [])"
proof -
  have a: "JSString [] = JSString [] \<or> (\<forall>q. JSString [] \<noteq> JSString q)" by simp
  have b: "JSNumber 42 = JSString [] \<or> (\<forall>q. JSNumber 42 \<noteq> JSString q)" by simp
  from routeQuery_rejects_invalid_query [OF a] routeQuery_rejects_invalid_query [OF b]
  show ?thesis by blast
qed

section \<open>Properties of the source attribution\<close>

lemma first_per_document_ids:
  "set (map chunk_document (first_per_document cs)) = chunk_document ` set cs \<and>
   distinct (map chunk_document (first_per_document cs))"
proof (induction cs rule: first_per_document.induct)
  case 1
  show ?case by simp
next
  case (2 c cs)
  then show ?case by auto
qed

lemma extractSources_loop_refines:
  "extractSources_loop dm uniqueDocs acc cs =
   acc @ concat (map (source_entries dm)
     (first_per_document (filter (\<lambda>c. chunk_document c \<notin> uniqueDocs) cs)))"
proof (induction cs arbitrary: uniqueDocs acc)
  case Nil
  show ?case by simp
next
  case (Cons c rest)
  show ?case
  proof (cases "chunk_document c \<in> uniqueDocs")
    case True
    then show ?thesis using Cons.IH [of uniqueDocs acc]
      by (simp add: chunk_document_def)
  next
    case False
    have f: "filter (\<lambda>d. chunk_document d \<noteq> chunk_document c)
               (filter (\<lambda>c. chunk_document c \<notin> uniqueDocs) rest) =
             filter (\<lambda>d. chunk_document d \<notin> insert (chunk_document c) uniqueDocs) rest"
      by (simp add: conj_commute)
    show ?thesis
    proof (cases "getDocumentById dm (chunk_document c)")
      case None
      with False f Cons.IH [of "insert (chunk_document c) uniqueDocs" acc]
      show ?thesis by (simp add: chunk_document_def source_entries_def)
    next
      case (Some doc)
      with False f
        Cons.IH [of "insert (chunk_document c) uniqueDocs" "acc @ [source_entry dm doc c]"]
      show ?thesis by (simp add: chunk_document_def source_entries_def)
    qed
  qed
qed

lemma length_source_entries:
  "length (concat (map (source_entries dm) xs)) =
   length (filter (\<lambda>i. getDocumentById dm i \<noteq> None) (map chunk_document xs))"
  by (induction xs) (auto simp: source_entries_def split: option.splits)

lemma source_entries_ids:
  assumes "\<forall>k doc. documentsById dm k = Some doc \<longrightarrow> doc_id doc = k"
  shows "map source.document_id (concat (map (source_entries dm) xs)) =
         filter (\<lambda>i. getDocumentById dm i \<noteq> None) (map chunk_document xs)"
proof (induction xs)
  case Nil
  show ?case by simp
next
  case (Cons c xs)
  show ?case
  proof (cases "getDocumentById dm (chunk_document c)")
    case None
    with Cons show ?thesis by (simp add: source_entries_def)
  next
    case (Some doc)
    then have "doc_id doc = chunk_document c"
      using assms by (simp add: getDocumentById_def)
    with Some Cons show ?thesis by (simp add: source_entries_def source_entry_def)
  qed
qed

text \<open>
  Claim C10. For every list of retrieved chunks, \<open>extractSources\<close> walks the first chunk of
  each distinct document id in retrieval order; such a chunk contributes exactly one entry
  when its id resolves to a document of the catalog and nothing (and no error) when it
  does not. So the number of sources is the number of distinct document ids that resolve,
  which can be smaller than the number of distinct ids; and in a catalog whose map sends
  every key to a document of that id, as \<open>loadMetadata\<close> builds it, the ids of the sources
  are the resolving ids in order of first occurrence.
\<close>

theorem extractSources_first_resolved:
  "extractSources dm retrieved =
     concat (map (source_entries dm) (first_per_document retrieved)) \<and>
   distinct (map chunk_document (first_per_document retrieved)) \<and>
   set (map chunk_document (first_per_document retrieved)) = chunk_document ` set retrieved \<and>
   length (extractSources dm retrieved) =
     card {i \<in> chunk_document ` set retrieved. getDocumentById dm i \<noteq> None} \<and>
   length (extractSources dm retrieved) \<le> card (chunk_document ` set retrieved) \<and>
   ((\<forall>k doc. documentsById dm k = Some doc \<longrightarrow> doc_id doc = k) \<longrightarrow>
      map source.document_id (extractSources dm retrieved) =
        filter (\<lambda>i. getDocumentById dm i \<noteq> None)
          (map chunk_document (first_per_document retrieved)))"
proof -
  let ?firsts = "first_per_document retrieved"
  let ?ids = "map chunk_document ?firsts"
  have eq: "extractSources dm retrieved = concat (map (source_entries dm) ?firsts)"
    using extractSources_loop_refines [of dm "{}" "[]" retrieved]
    by (simp add: extractSources_def)
  have ids: "set ?ids = chunk_document ` set retrieved" and dist: "distinct ?ids"
    using first_per_document_ids [of retrieved] by blast+
  have "length (extractSources dm retrieved) =
        length (filter (\<lambda>i. getDocumentById dm i \<noteq> None) ?ids)"
    by (simp only: eq length_source_entries)
  also have "\<dots> = card (set (filter (\<lambda>i. getDocumentById dm i \<noteq> None) ?ids))"
  proof -
    have "distinct (filter (\<lambda>i. getDocumentById dm i \<noteq> None) ?ids)"
      using dist by (rule distinct_filter)
    then show ?thesis by (rule distinct_card [symmetric])
  qed
  also have "set (filter (\<lambda>i. getDocumentById dm i \<noteq> None) ?ids) =
             {i \<in> chunk_document ` set retrieved. getDocumentById dm i \<noteq> None}"
    using ids by auto
  finally have len: "length (extractSources dm retrieved) =
      card {i \<in> chunk_document ` set retrieved. getDocumentById dm i \<noteq> None}" .
  have "card {i \<in> chunk_document ` set retrieved. getDocumentById dm i \<noteq> None} \<le>
        card (chunk_document ` set retrieved)"
    by (rule card_mono) auto
  with len have le: "length (extractSources dm retrieved) \<le> card (chunk_document ` set retrieved)"
    by simp
  have inv: "map source.document_id (extractSources dm retrieved) =
             filter (\<lambda>i. getDocumentById dm i \<noteq> None) ?ids"
    if "\<forall>k doc. documentsById dm k = Some doc \<longrightarrow> doc_id doc = k"
    using source_entries_ids [OF that, of ?firsts] by (simp only: eq)
  from eq dist ids len le inv show ?thesis by blast
qed

lemma index_by_id_fold_keys:
  "(\<And>k doc. m k = Some doc \<Longrightarrow> doc_id doc = k) \<Longrightarrow>
   foldl (\<lambda>m doc. m(doc_id doc \<mapsto> doc)) m docs k = Some doc \<Longrightarrow> doc_id doc = k"
proof (induction docs arbitrary: m)
  case Nil
  then show ?case by simp
next
  case (Cons d docs)
  have step: "doc_id doc' = k'" if "(m(doc_id d \<mapsto> d)) k' = Some doc'" for k' doc'
  proof (cases "k' = doc_id d")
    case True
    with that show ?thesis by simp
  next
    case False
    with that have "m k' = Some doc'" by simp
    then show ?thesis by (rule Cons.prems(1))
  qed
  from Cons.prems(2) have "foldl (\<lambda>m doc. m(doc_id doc \<mapsto> doc)) (m(doc_id d \<mapsto> d)) docs k = Some doc"
    by (simp only: foldl_Cons)
  with step show ?case by (rule Cons.IH)
qed

lemma index_by_id_keys:
  "index_by_id docs k = Some doc \<Longrightarrow> doc_id doc = k"
  unfolding index_by_id_def by (rule index_by_id_fold_keys [of Map.empty]) simp_all

lemma loadMetadata_keys:
  assumes "loadMetadata this documentsData categoriesData = Inr dm"
  shows "\<forall>k doc. documentsById dm k = Some doc \<longrightarrow> doc_id doc = k"
proof -
  from assms obtain docs where "documentsById dm = index_by_id docs"
    by (auto simp: loadMetadata_def split: option.splits)
  then show ?thesis using index_by_id_keys by simp
qed

lemma example_manager_loaded:
  "loadMetadata DocumentManager (Some example_documents)
     (Some [\<lparr>category_id = ''safety'', name_uk = ''Bezpeka'', name_en = ''Safety''\<rparr>]) =
   Inr example_manager"
  by (simp add: loadMetadata_def DocumentManager_def example_manager_def)

lemma example_lookup_A:
  "getDocumentById example_manager ''A'' = Some (hd example_documents)"
  by (simp add: getDocumentById_def example_manager_def example_documents_def index_by_id_def)

lemma example_lookup_X:
  "getDocumentById example_manager ''X'' = None"
  by (simp add: getDocumentById_def example_manager_def example_documents_def index_by_id_def)

lemma example_category_name:
  "getCategoryName example_manager ''safety'' ''en'' = ''Safety''"
  by (simp add: getCategoryName_def getCategoryById_def example_manager_def)

lemma example_extractSources:
  "extractSources example_manager example_retrieved =
   [\<lparr>source.document_id = ''A'', title = ''Fire safety rules'', category = ''safety'',
     categoryName = ''Safety'', source_url = ''https://example.org/a'', language = ''en'',
     filename = ''a.pdf''\<rparr>]"
  by (simp add: extractSources_def example_retrieved_def example_chunk_def
      example_lookup_A example_lookup_X source_entry_def example_documents_def
      example_category_name)

lemma example_retrieved_ids:
  "chunk_document ` set example_retrieved = {''A'', ''X''}"
  by (simp add: example_retrieved_def chunk_document_def example_chunk_def insert_commute)

theorem extractSources_first_resolved_witness:
  "extractSources example_manager example_retrieved =
     [\<lparr>source.document_id = ''A'', title = ''Fire safety rules'', category = ''safety'',
       categoryName = ''Safety'', source_url = ''https://example.org/a'', language = ''en'',
       filename = ''a.pdf''\<rparr>] \<and>
   extractSources example_manager example_retrieved =
     concat (map (source_entries example_manager) (first_per_document example_retrieved)) \<and>
   length (extractSources example_manager example_retrieved) =
     card {i \<in> chunk_document ` set example_retrieved.
             getDocumentById example_manager i \<noteq> None} \<and>
   map source.document_id (extractSources example_manager example_retrieved) =
     filter (\<lambda>i. getDocumentById example_manager i \<noteq> None)
       (map chunk_document (first_per_document example_retrieved)) \<and>
   length (extractSources example_manager example_retrieved) <
     card (chunk_document ` set example_retrieved)"
proof -
  note inst = extractSources_first_resolved [of example_manager example_retrieved]
  have keys: "\<forall>k doc. documentsById example_manager k = Some doc \<longrightarrow> doc_id doc = k"
    using example_manager_loaded by (rule loadMetadata_keys)
  have c1: "extractSources example_manager example_retrieved =
     concat (map (source_entries example_manager) (first_per_document example_retrieved))"
    using inst by (rule conjunct1)
  have c4: "length (extractSources example_manager example_retrieved) =
     card {i \<in> chunk_document ` set example_retrieved.
             getDocumentById example_manager i \<noteq> None}"
    using inst by (elim conjE)
  have c6: "map source.document_id (extractSources example_manager example_retrieved) =
     filter (\<lambda>i. getDocumentById example_manager i \<noteq> None)
       (map chunk_document (first_per_document example_retrieved))"
    using inst keys by (elim conjE impE)
  have "''A'' \<noteq> ''X''" by simp
  then have "card {''A'', ''X''} = 2" by simp
  then have short: "length (extractSources example_manager example_retrieved) <
                    card (chunk_document ` set example_retrieved)"
    by (simp only: example_retrieved_ids example_extractSources) simp
  from example_extractSources c1 c4 c6 short show ?thesis
    by (intro conjI)
qed

section \<open>Properties of the chunker\<close>


declare split_whitespace.simps [simp del]





















section \<open>Properties of the RAG pipeline\<close>

lemma PromptBuilder_has_no_buildRAGPrompt:
  "buildRAGPrompt_method (PromptBuilder_object pb) = None"
  by (simp add: PromptBuilder_object_def)

text \<open>With a prompt builder that has no \<open>buildRAGPrompt\<close>, as the repository's, every query
  that gets as far as a non-empty retrieval ends in the \<open>catch\<close> block.\<close>

lemma query_without_buildRAGPrompt:
  assumes "buildRAGPrompt_method (promptBuilder this) = None"
    and "embedText (rag_pipeline.embeddingManager this) userQuery = Inr v"
    and "search (rag_pipeline.vectorStore this) v (query_options.topK options)
           (query_options.filters options) False = Inr (c # cs)"
  shows "query this now userQuery options =
         error_response (TypeError ''this.promptBuilder.buildRAGPrompt is not a function'')"
  using assms by (simp add: query_def)

text \<open>With \<open>includeMetadata\<close> false the final \<open>console.log\<close> throws, whatever the prompt
  builder is.\<close>

lemma query_without_metadata:
  assumes "\<not> includeMetadata options"
    and "embedText (rag_pipeline.embeddingManager this) userQuery = Inr v"
    and "search (rag_pipeline.vectorStore this) v (query_options.topK options)
           (query_options.filters options) False = Inr (c # cs)"
  shows "mode (query this now userQuery options) = ''error''"
  using assms
  by (simp add: query_def error_response_def Let_def split: option.splits sum.splits)

text \<open>With a prompt builder that has both methods and with \<open>includeMetadata\<close> true, the
  result is the one the specification describes.\<close>

lemma query_with_buildRAGPrompt:
  assumes "buildRAGPrompt_method (promptBuilder this) = Some build"
    and "extractResponse_method (promptBuilder this) = Some extract"
    and "includeMetadata options"
    and "embedText (rag_pipeline.embeddingManager this) userQuery = Inr v"
    and "search (rag_pipeline.vectorStore this) v (query_options.topK options)
           (query_options.filters options) False = Inr (c # cs)"
    and "generateResponse (modelManager this) (build userQuery (buildContext (c # cs)))
           (generationConfig options) = Inr generated"
  shows "query this now userQuery options =
         \<lparr>mode = ''rag'',
          answer = extract generated,
          error = None,
          retrievedChunks = map retrieved_of (c # cs),
          sources = extractSources (documentManager this) (c # cs),
          metadata =
            Some \<lparr>queryTime = (now 1 - now 0) + (now 3 - now 2) + (now 5 - now 4),
                  embeddingTime = Some (now 1 - now 0),
                  retrievalTime = Some (now 3 - now 2),
                  generationTime = Some (now 5 - now 4),
                  retrievedCount = length (c # cs),
                  sourceCount = Some (length (extractSources (documentManager this) (c # cs))),
                  avgSimilarity = Some (calculateAvgSimilarity (c # cs))\<rparr>\<rparr>"
  using assms by (simp add: query_def Let_def)

lemma example_search_5:
  "search example_store [1, 0, 0] 5 no_filters False =
   Inr [\<lparr>result_chunk = example_chunk ''A_chunk_0'' ''A'' (ArrayEmbedding [1, 0, 0]),
         similarity_score = 1\<rparr>,
        \<lparr>result_chunk = example_chunk ''B_chunk_0'' ''B'' (ArrayEmbedding [0, 1, 0]),
         similarity_score = 0\<rparr>,
        \<lparr>result_chunk = example_chunk ''A_chunk_1'' ''A'' (Float32Embedding [0, 0, 1]),
         similarity_score = 0\<rparr>]"
  by (simp add: search_def example_store_def slice_from_start_def similarity_of_def
      dotProduct_def dot_def filtered_out_def truthy_def no_filters_def)

text \<open>
  Claim C1 says that whenever the embedding succeeds, the retrieval returns at least one
  chunk and the generator call succeeds, \<open>RAGPipeline.query\<close> returns mode \<open>rag\<close> with
  the cleaned answer, the chunks, the sources and the metadata. With the repository's
  \<open>PromptBuilder\<close> as prompt builder the code does not get to the generator: the call of
  \<open>buildRAGPrompt\<close>, which the class does not define, throws, and the result is mode
  \<open>error\<close>. Here on the example index, with default options.
\<close>

theorem query_with_repository_PromptBuilder:
  "embedText (rag_pipeline.embeddingManager example_pipeline) ''fire drill'' = Inr [1, 0, 0] \<and>
   search (rag_pipeline.vectorStore example_pipeline) [1, 0, 0]
     (query_options.topK default_query_options)
     (query_options.filters default_query_options) False \<noteq> Inr [] \<and>
   generateResponse (modelManager example_pipeline) ''any prompt''
     (generationConfig default_query_options) = Inr ''Keep the exits clear.'' \<and>
   query example_pipeline real ''fire drill'' default_query_options =
     \<lparr>mode = ''error'',
      answer = error_uk @ '' / An error occurred while processing your request.'',
      error = Some ''this.promptBuilder.buildRAGPrompt is not a function'',
      retrievedChunks = [], sources = [], metadata = None\<rparr>"
proof -
  have e: "embedText (rag_pipeline.embeddingManager example_pipeline) ''fire drill'' = Inr [1, 0, 0]"
    by (simp add: example_pipeline_def embedText_def)
  have s: "search (rag_pipeline.vectorStore example_pipeline) [1, 0, 0]
             (query_options.topK default_query_options)
             (query_options.filters default_query_options) False =
           Inr (\<lparr>result_chunk = example_chunk ''A_chunk_0'' ''A'' (ArrayEmbedding [1, 0, 0]),
                 similarity_score = 1\<rparr> #
                [\<lparr>result_chunk = example_chunk ''B_chunk_0'' ''B'' (ArrayEmbedding [0, 1, 0]),
                  similarity_score = 0\<rparr>,
                 \<lparr>result_chunk = example_chunk ''A_chunk_1'' ''A'' (Float32Embedding [0, 0, 1]),
                  similarity_score = 0\<rparr>])"
    using example_search_5 by (simp add: example_pipeline_def default_query_options_def)
  have g: "generateResponse (modelManager example_pipeline) ''any prompt''
             (generationConfig default_query_options) = Inr ''Keep the exits clear.''"
    by (simp add: example_pipeline_def generateResponse_def)
  have p: "buildRAGPrompt_method (promptBuilder example_pipeline) = None"
    by (simp add: example_pipeline_def PromptBuilder_has_no_buildRAGPrompt)
  have q: "query example_pipeline real ''fire drill'' default_query_options =
           error_response (TypeError ''this.promptBuilder.buildRAGPrompt is not a function'')"
    using p e s by (rule query_without_buildRAGPrompt)
  from e s g q show ?thesis
    by (simp add: error_response_def message_of_def)
qed

section \<open>Boundary behaviour of the chunker\<close>

text \<open>A document with no sentences yields no chunk, and no error.\<close>

theorem createChunks_no_sentences: "createChunks [] doc = []"
  by (simp add: createChunks_def chunker_loop_def initial_chunker_state_def)

end
